theory Spec2Isabelle
  imports Complex_Main
begin

section \<open>Certificate page (Certificate.tsx)\<close>

subsection \<open>Scores and bands\<close>

text \<open>
  The certificate page works on JavaScript numbers. The per-skill scores that reach
  \<open>scoreToCefr\<close> and \<open>getScoreRange\<close> are results of \<open>Math.round\<close>, hence integers, and
  are modelled as \<open>int\<close>. Raw scores of an attempt may be fractional and are modelled as
  \<open>rat\<close>: on integers below \<open>2^53\<close> the sum of four scores and its division by four are
  exact in double precision, so the rational model computes what the code computes.
\<close>

text \<open>
  \<open>Math.round(x)\<close> is the integer nearest to \<open>x\<close>; of two equally near integers it is
  the one closer to plus infinity.
\<close>

definition Math_round :: "rat \<Rightarrow> int" where
  "Math_round x = \<lfloor>x + 1 / 2\<rfloor>"

text \<open>\<open>scoreToCefr\<close>, lines 30-38: a chain of early returns, highest threshold first.\<close>

definition scoreToCefr :: "int \<Rightarrow> string" where
  "scoreToCefr score =
     (if score \<ge> 86 then ''C2''
      else if score \<ge> 71 then ''C1''
      else if score \<ge> 51 then ''B2''
      else if score \<ge> 41 then ''B1''
      else if score \<ge> 21 then ''A2''
      else if score \<ge> 11 then ''A1''
      else ''A0'')"

text \<open>\<open>getScoreRange\<close>, lines 40-48: the same chain with the display range of each band.\<close>

definition getScoreRange :: "int \<Rightarrow> string" where
  "getScoreRange score =
     (if score \<ge> 86 then ''86-100''
      else if score \<ge> 71 then ''71-85''
      else if score \<ge> 51 then ''51-70''
      else if score \<ge> 41 then ''41-50''
      else if score \<ge> 21 then ''21-40''
      else if score \<ge> 11 then ''11-20''
      else ''0-10'')"

text \<open>
  The overall score, line 95 of \<open>fetchCertificateData\<close>: the mean of the four rounded
  skill scores, rounded with \<open>Math.round\<close>.
\<close>

definition totalScoreOf :: "int \<Rightarrow> int \<Rightarrow> int \<Rightarrow> int \<Rightarrow> int" where
  "totalScoreOf listeningScore readingScore writingScore speakingScore =
     Math_round (of_int (listeningScore + readingScore + writingScore + speakingScore) / 4)"

subsection \<open>Decimal text of a number\<close>

text \<open>
  \<open>Number.prototype.toString()\<close> and the template literal on a non-negative integer: its
  decimal digits, most significant first, no leading zero.
\<close>

definition digitChar :: "nat \<Rightarrow> char" where
  "digitChar d = ''0123456789'' ! (d mod 10)"

fun toString :: "nat \<Rightarrow> string" where
  "toString n =
     (if n < 10 then [digitChar n] else toString (n div 10) @ [digitChar (n mod 10)])"

declare toString.simps [simp del]

subsection \<open>The test date\<close>

text \<open>
  \<open>new Date(attempt.test_date)\<close> is read by \<open>toLocaleDateString\<close> through its calendar
  fields in the browser's time zone. The conversion of the stored timestamp to these
  fields belongs to the host and its time zone; the model starts from the fields. A
  timestamp that does not parse gives the invalid date.
\<close>

datatype month = Jan | Feb | Mar | Apr | May | Jun | Jul | Aug | Sep | Oct | Nov | Dec

datatype jsDate = InvalidDate | LocalDate nat month nat

fun monthShort :: "month \<Rightarrow> string" where
  "monthShort Jan = ''Jan''"
| "monthShort Feb = ''Feb''"
| "monthShort Mar = ''Mar''"
| "monthShort Apr = ''Apr''"
| "monthShort May = ''May''"
| "monthShort Jun = ''Jun''"
| "monthShort Jul = ''Jul''"
| "monthShort Aug = ''Aug''"
| "monthShort Sep = ''Sep''"
| "monthShort Oct = ''Oct''"
| "monthShort Nov = ''Nov''"
| "monthShort Dec = ''Dec''"

text \<open>The \<open>2-digit\<close> day: padded with a zero below ten.\<close>

definition twoDigit :: "nat \<Rightarrow> string" where
  "twoDigit d = (if d < 10 then CHR ''0'' # toString d else toString d)"

text \<open>
  \<open>toLocaleDateString('en-US', {day: '2-digit', month: 'short', year: 'numeric'})\<close>,
  lines 103-107. The locale is the one the source passes; its date pattern for these
  three fields is month, day, comma, year.
\<close>

fun toLocaleDateString :: "jsDate \<Rightarrow> string" where
  "toLocaleDateString InvalidDate = ''Invalid Date''"
| "toLocaleDateString (LocalDate y m d) =
     monthShort m @ '' '' @ twoDigit d @ '', '' @ toString y"

subsection \<open>Building the certificate record\<close>

text \<open>A row of \<open>test_attempts\<close>: the four raw scores may be null.\<close>

record attempt =
  listening_score :: "rat option"
  reading_score :: "rat option"
  writing_score :: "rat option"
  speaking_score :: "rat option"
  test_date :: jsDate

text \<open>
  \<open>CertificateData\<close>, lines 10-28; the nested objects \<open>cefr\<close> and \<open>scores\<close> are flattened
  with their name as a prefix.
\<close>

record CertificateData =
  candidateName :: string
  testDate :: string
  certificateId :: string
  totalScore :: int
  cefr_overall :: string
  cefr_listening :: string
  cefr_reading :: string
  cefr_writing :: string
  cefr_speaking :: string
  scores_listening :: int
  scores_reading :: int
  scores_writing :: int
  scores_speaking :: int

text \<open>The answer of a query of the store: \<open>{data, error}\<close>.\<close>

datatype 'a queryResult = QueryError string | QueryData 'a

text \<open>\<open>x ?? 0\<close> on a score that may be null.\<close>

definition nullish0 :: "rat option \<Rightarrow> rat" where
  "nullish0 x = (case x of None \<Rightarrow> 0 | Some v \<Rightarrow> v)"

text \<open>\<open>a || b\<close> on a string that may be absent: the empty string is falsy too.\<close>

definition orElse :: "string option \<Rightarrow> string \<Rightarrow> string" where
  "orElse a b = (case a of None \<Rightarrow> b | Some v \<Rightarrow> if v = [] then b else v)"

text \<open>\<open>`CERT-${id?.slice(0, 8)}`\<close>: a missing route parameter \<open>id\<close> prints as \<open>undefined\<close>.\<close>

definition fallbackCertificateId :: "string option \<Rightarrow> string" where
  "fallbackCertificateId routeId =
     ''CERT-'' @ (case routeId of None \<Rightarrow> ''undefined'' | Some v \<Rightarrow> take 8 v)"

text \<open>
  \<open>fetchCertificateData\<close>, lines 67-129. Its inputs are what the awaited calls return:
  the session's user id, the route parameter, the attempt query's answer, the profile's
  name, the locally cached name and the issued certificate id. The result is the value
  given to \<open>setCertificateData\<close>; \<open>None\<close> when the state stays null (no session, or the
  attempt query fails and the exception is caught).
\<close>

definition fetchCertificateData ::
  "string option \<Rightarrow> string option \<Rightarrow> attempt queryResult \<Rightarrow> string option
     \<Rightarrow> string option \<Rightarrow> string option \<Rightarrow> CertificateData option" where
  "fetchCertificateData session routeId attemptResult full_name cachedName certificate_id =
     (case session of
        None \<Rightarrow> None
      | Some uid \<Rightarrow>
          (case attemptResult of
             QueryError attemptError \<Rightarrow> None
           | QueryData attempt \<Rightarrow>
               let listeningScore = Math_round (nullish0 (listening_score attempt));
                   readingScore = Math_round (nullish0 (reading_score attempt));
                   writingScore = Math_round (nullish0 (writing_score attempt));
                   speakingScore = Math_round (nullish0 (speaking_score attempt));
                   total = totalScoreOf listeningScore readingScore writingScore speakingScore
               in Some \<lparr>
                    candidateName = orElse full_name (orElse cachedName ''Candidate''),
                    testDate = toLocaleDateString (test_date attempt),
                    certificateId = orElse certificate_id (fallbackCertificateId routeId),
                    totalScore = total,
                    cefr_overall = scoreToCefr total,
                    cefr_listening = scoreToCefr listeningScore,
                    cefr_reading = scoreToCefr readingScore,
                    cefr_writing = scoreToCefr writingScore,
                    cefr_speaking = scoreToCefr speakingScore,
                    scores_listening = listeningScore,
                    scores_reading = readingScore,
                    scores_writing = writingScore,
                    scores_speaking = speakingScore \<rparr>))"

subsection \<open>Printing the award date\<close>

text \<open>\<open>String.prototype.split(' ')\<close>: the pieces between the spaces, empty pieces kept.\<close>

fun splitOn :: "char \<Rightarrow> string \<Rightarrow> string list" where
  "splitOn c [] = [[]]"
| "splitOn c (x # xs) =
     (if x = c then [] # splitOn c xs
      else (case splitOn c xs of [] \<Rightarrow> [[x]] | p # ps \<Rightarrow> (x # p) # ps))"

text \<open>\<open>parts[i]\<close>: \<open>undefined\<close> past the end.\<close>

definition partAt :: "string list \<Rightarrow> nat \<Rightarrow> string option" where
  "partAt parts i = (if i < length parts then Some (parts ! i) else None)"

definition isSpace :: "char \<Rightarrow> bool" where
  "isSpace c = (c \<in> set [CHR '' '', CHR 0x09, CHR 0x0A, CHR 0x0B, CHR 0x0C, CHR 0x0D])"

definition isDigit :: "char \<Rightarrow> bool" where
  "isDigit c = (c \<in> set ''0123456789'')"

definition digitVal :: "char \<Rightarrow> nat" where
  "digitVal c = of_char c - of_char CHR ''0''"

fun digitsToNat :: "nat \<Rightarrow> string \<Rightarrow> nat" where
  "digitsToNat acc [] = acc"
| "digitsToNat acc (c # cs) = digitsToNat (acc * 10 + digitVal c) cs"

text \<open>
  \<open>parseInt(s, 10)\<close>: leading white space is skipped, a sign is read, then the longest
  run of digits; \<open>NaN\<close>, here \<open>None\<close>, when there is no digit.
\<close>

definition parseInt :: "string \<Rightarrow> int option" where
  "parseInt s =
     (let t = dropWhile isSpace s;
          neg = (t \<noteq> [] \<and> hd t = CHR ''-'');
          u = (if t \<noteq> [] \<and> (hd t = CHR ''-'' \<or> hd t = CHR ''+'') then tl t else t);
          ds = takeWhile isDigit u
      in if ds = [] then None
         else Some (if neg then - int (digitsToNat 0 ds) else int (digitsToNat 0 ds)))"

text \<open>\<open>d % 10\<close> on an integer: the remainder has the sign of \<open>d\<close>.\<close>

definition rem10 :: "int \<Rightarrow> int" where
  "rem10 d = (if d < 0 then - ((- d) mod 10) else d mod 10)"

text \<open>\<open>`${d}`\<close> on the number \<open>parseInt\<close> returned.\<close>

definition numberText :: "int option \<Rightarrow> string" where
  "numberText d =
     (case d of
        None \<Rightarrow> ''NaN''
      | Some v \<Rightarrow> if v < 0 then CHR ''-'' # toString (nat (- v)) else toString (nat v))"

text \<open>The table \<open>map\<close> of \<open>formatAwardDate\<close>: full month names by their abbreviation.\<close>

definition monthFullName :: "string \<Rightarrow> string option" where
  "monthFullName k =
     map_of [(''Jan'', ''January''), (''Feb'', ''February''), (''Mar'', ''March''),
             (''Apr'', ''April''), (''May'', ''May''), (''Jun'', ''June''),
             (''Jul'', ''July''), (''Aug'', ''August''), (''Sep'', ''September''),
             (''Oct'', ''October''), (''Nov'', ''November''), (''Dec'', ''December'')] k"

text \<open>
  \<open>formatAwardDate\<close>, lines 380-393, which prints the record's \<open>testDate\<close> on the
  certificate. It reads the first piece as the day, the second as the abbreviated month
  and the third as the year; a missing piece is taken from today's date, given here
  by its year, month and day.
\<close>

definition formatAwardDate :: "nat \<Rightarrow> month \<Rightarrow> nat \<Rightarrow> string \<Rightarrow> string" where
  "formatAwardDate todayYear todayMonth todayDay dateStr =
     (let parts = splitOn CHR '' '' dateStr;
          dayText = orElse (partAt parts 0) (toString todayDay);
          monthText = orElse (partAt parts 1) (monthShort todayMonth);
          yearText = orElse (partAt parts 2) (toString todayYear);
          d = parseInt dayText;
          suffix =
            (case d of
               None \<Rightarrow> ''th''
             | Some v \<Rightarrow>
                 if rem10 v = 1 \<and> v \<noteq> 11 then ''st''
                 else if rem10 v = 2 \<and> v \<noteq> 12 then ''nd''
                 else if rem10 v = 3 \<and> v \<noteq> 13 then ''rd''
                 else ''th'');
          monthFull = orElse (monthFullName monthText) monthText
      in numberText d @ suffix @ '' day of '' @ monthFull @ '', '' @ yearText)"

section \<open>Payment flow (PaymentModal.tsx and the verify-payment function)\<close>

subsection \<open>The ledger\<close>

text \<open>
  The JSON the gateway answers with: the two fields the handler reads,
  \<open>verifyJson?.data?.status\<close> and \<open>verifyJson?.data?.amount\<close>, each absent or present, and
  the rest of the document, kept opaque.
\<close>

record verifyJson =
  data_status :: "string option"
  data_amount :: "int option"
  raw :: string

text \<open>
  What the column \<open>paystack_response\<close> holds: the object the gateway's client library
  hands to the success callback, or the JSON of a verification.
\<close>

datatype paystackResponse = CallbackPayload string | GatewayAnswer verifyJson

text \<open>A row of the table \<open>payment_transactions\<close>, with the columns the source writes.\<close>

record paymentRow =
  user_id :: string
  amount :: int
  purpose :: string
  reference :: string
  status :: string
  paystack_response :: paystackResponse

text \<open>
  The table is a list of rows; the source shows no constraint on its columns, and the
  model has none. The answer of the store to a write is an input of the model: the
  write is done, or it fails with a message and changes nothing.
\<close>

datatype dbResult = DbOk | DbError string

definition insertRow :: "dbResult \<Rightarrow> paymentRow \<Rightarrow> paymentRow list \<Rightarrow> paymentRow list" where
  "insertRow res row rows = (case res of DbOk \<Rightarrow> rows @ [row] | DbError msg \<Rightarrow> rows)"

text \<open>
  \<open>.update({status, paystack_response}).eq('reference', reference)\<close>: every row with
  that reference gets the two columns; a reference no row has matches nothing.
\<close>

definition updateByReference ::
  "string \<Rightarrow> string \<Rightarrow> paystackResponse \<Rightarrow> paymentRow list \<Rightarrow> paymentRow list" where
  "updateByReference ref newStatus resp rows =
     map (\<lambda>r. if reference r = ref then r\<lparr>status := newStatus, paystack_response := resp\<rparr> else r)
       rows"

subsection \<open>The verify-payment function\<close>

record denoEnv =
  PAYSTACK_SECRET_KEY :: "string option"
  SUPABASE_URL :: "string option"
  SUPABASE_SERVICE_ROLE_KEY :: "string option"

text \<open>\<open>Deno.env.get(name) ?? ''\<close>.\<close>

definition envOrEmpty :: "string option \<Rightarrow> string" where
  "envOrEmpty v = (case v of None \<Rightarrow> [] | Some x \<Rightarrow> x)"

text \<open>
  The request: \<open>req.json()\<close> throws on a body that is not JSON; otherwise the field
  \<open>reference\<close> is absent or a string.
\<close>

datatype request = MalformedBody | JsonBody "string option"

text \<open>
  The gateway's answer to \<open>fetch\<close>: the call or the decoding of its body fails, or there is
  an answer with its \<open>ok\<close> flag and its JSON.
\<close>

datatype fetchResult = FetchFails | HttpAnswer bool verifyJson

datatype responseBody =
    TextBody string
  | JsonAnswer verifyJson
  | StatusAmount "string option" "int option"

datatype response = Response responseBody nat

text \<open>What a run of the handler ends with: a response, or a rejected promise.\<close>

datatype outcome = Throws | Returns response

text \<open>
  \<open>handler\<close>, lines 133-159. The environment, the request, the gateway's answer for a
  reference and the store's answer to the update are inputs; the result is the outcome
  and the table afterwards.
\<close>

definition handler ::
  "denoEnv \<Rightarrow> request \<Rightarrow> (string \<Rightarrow> fetchResult) \<Rightarrow> dbResult \<Rightarrow> paymentRow list
     \<Rightarrow> outcome \<times> paymentRow list" where
  "handler env req gateway updateResult rows =
     (let secret = envOrEmpty (PAYSTACK_SECRET_KEY env);
          supabaseUrl = envOrEmpty (SUPABASE_URL env);
          serviceKey = envOrEmpty (SUPABASE_SERVICE_ROLE_KEY env)
      in if secret = [] \<or> supabaseUrl = [] \<or> serviceKey = []
         then (Returns (Response (TextBody ''missing env'') 500), rows)
         else
           (case req of
              MalformedBody \<Rightarrow> (Throws, rows)
            | JsonBody None \<Rightarrow> (Returns (Response (TextBody ''missing reference'') 400), rows)
            | JsonBody (Some ref) \<Rightarrow>
                if ref = [] then (Returns (Response (TextBody ''missing reference'') 400), rows)
                else
                  (case gateway ref of
                     FetchFails \<Rightarrow> (Throws, rows)
                   | HttpAnswer ok json \<Rightarrow>
                       if \<not> ok then (Returns (Response (JsonAnswer json) 502), rows)
                       else
                         (case updateResult of
                            DbError msg \<Rightarrow> (Returns (Response (TextBody msg) 500), rows)
                          | DbOk \<Rightarrow>
                              (Returns (Response
                                 (StatusAmount (data_status json) (data_amount json)) 200),
                               updateByReference ref
                                 (if data_status json = Some ''success''
                                  then ''verified'' else ''failed'')
                                 (GatewayAnswer json) rows)))))"

subsection \<open>The payment modal\<close>

text \<open>\<open>paystackConfig\<close>, lines 26-32, computed at every render from the clock.\<close>

record paystackConfig =
  config_reference :: string
  config_email :: string
  config_amount :: int
  config_currency :: string
  config_publicKey :: string

definition paystackConfigAt :: "nat \<Rightarrow> string \<Rightarrow> string option \<Rightarrow> paystackConfig" where
  "paystackConfigAt now userEmail viteKey =
     \<lparr> config_reference = toString now,
       config_email = (if userEmail = [] then ''user@example.com'' else userEmail),
       config_amount = 250000,
       config_currency = ''KES'',
       config_publicKey = orElse viteKey [] \<rparr>"

definition canPay :: "paystackConfig \<Rightarrow> bool" where
  "canPay c =
     (config_publicKey c \<noteq> []
      \<and> (take 7 (config_publicKey c) = ''pk_live'' \<or> take 7 (config_publicKey c) = ''pk_test''))"

text \<open>
  What the modal's callbacks reach outside the component: the server side (the function's
  environment, the gateway, the store's answers to the insert and to the update).
\<close>

record backend =
  functionEnv :: denoEnv
  gateway :: "string \<Rightarrow> fetchResult"
  insertResult :: dbResult
  updateResult :: dbResult

text \<open>
  The modal with what it acts on: the signed-in user's id and email, the configuration
  of the latest render, the gateway's checkout, the table and the browser's local
  storage. The callbacks handed to the gateway are closures of the render in which the
  pay button was pressed: an open checkout holds that render's configuration, whatever
  is rendered afterwards.
\<close>

record modal =
  sessionUserId :: "string option"
  userEmail :: string
  config :: "paystackConfig option"
  checkout :: "paystackConfig option"
  payment_transactions :: "paymentRow list"
  localStorage :: "string \<rightharpoonup> string"

text \<open>
  \<open>handlePaymentSuccess\<close>, lines 37-62. With a user id in the session the row is
  inserted with status \<open>success\<close> and then \<open>verify-payment\<close> is invoked on the same
  reference; without one (or when reading the session throws, which the \<open>try\<close> catches)
  the table is not touched. The answers of the insert and of the invocation are not
  looked at. The two local-storage entries are written in either case.
\<close>

definition handlePaymentSuccess :: "backend \<Rightarrow> paystackConfig \<Rightarrow> string \<Rightarrow> modal \<Rightarrow> modal" where
  "handlePaymentSuccess b c payload m =
     (let rows = payment_transactions m;
          logged =
            (case sessionUserId m of
               None \<Rightarrow> rows
             | Some uid \<Rightarrow>
                 if uid = [] then rows
                 else
                   snd (handler (functionEnv b) (JsonBody (Some (config_reference c)))
                          (gateway b) (updateResult b)
                          (insertRow (insertResult b)
                             \<lparr> user_id = uid,
                               amount = config_amount c,
                               purpose = ''reattempt'',
                               reference = config_reference c,
                               status = ''success'',
                               paystack_response = CallbackPayload payload \<rparr>
                             rows)))
      in m\<lparr> payment_transactions := logged,
            localStorage := (localStorage m)
              (''hasPaid'' \<mapsto> ''true'', ''paymentReference'' \<mapsto> config_reference c) \<rparr>)"

text \<open>\<open>handlePaymentClose\<close>, lines 64-67: a log line and a toast.\<close>

definition handlePaymentClose :: "modal \<Rightarrow> modal" where
  "handlePaymentClose m = m"

text \<open>
  What happens to the modal: it renders at a clock time, which computes a new
  configuration; the user presses the pay button (there only when \<open>canPay\<close>), which
  opens the gateway's checkout with the callbacks of that render; the checkout ends
  with the success callback or the close callback.
\<close>

datatype modalEvent = Render nat | ClickPay | GatewaySuccess string | GatewayClose

fun modalStep :: "backend \<Rightarrow> string option \<Rightarrow> modalEvent \<Rightarrow> modal \<Rightarrow> modal" where
  "modalStep b viteKey (Render now) m =
     m\<lparr>config := Some (paystackConfigAt now (userEmail m) viteKey)\<rparr>"
| "modalStep b viteKey ClickPay m =
     (case config m of
        None \<Rightarrow> m
      | Some c \<Rightarrow> if canPay c then m\<lparr>checkout := Some c\<rparr> else m)"
| "modalStep b viteKey (GatewaySuccess payload) m =
     (case checkout m of
        None \<Rightarrow> m
      | Some c \<Rightarrow> (handlePaymentSuccess b c payload m)\<lparr>checkout := None\<rparr>)"
| "modalStep b viteKey GatewayClose m =
     (case checkout m of
        None \<Rightarrow> m
      | Some c \<Rightarrow> (handlePaymentClose m)\<lparr>checkout := None\<rparr>)"

fun modalRun :: "backend \<Rightarrow> string option \<Rightarrow> modalEvent list \<Rightarrow> modal \<Rightarrow> modal" where
  "modalRun b viteKey [] m = m"
| "modalRun b viteKey (e # es) m = modalRun b viteKey es (modalStep b viteKey e m)"

text \<open>The gateway's checkout is open.\<close>

definition gatewayOpen :: "modal \<Rightarrow> bool" where
  "gatewayOpen m = (checkout m \<noteq> None)"

text \<open>The modal as it is mounted: nothing rendered yet, the checkout closed.\<close>

definition mounted :: "string option \<Rightarrow> string \<Rightarrow> paymentRow list \<Rightarrow> modal" where
  "mounted uid email rows =
     \<lparr> sessionUserId = uid, userEmail = email, config = None, checkout = None,
       payment_transactions = rows, localStorage = Map.empty \<rparr>"

section \<open>Vocabulary of the statements\<close>

text \<open>An outcome that reports an error: a rejected promise or a status of 400 and above.\<close>

fun isError :: "outcome \<Rightarrow> bool" where
  "isError Throws = True"
| "isError (Returns (Response body code)) = (400 \<le> code)"

text \<open>
  The seven bands of the scale in ascending order, with the code each band is written
  as. The source has no such type: it returns the two-letter codes as strings. The
  datatype is used only to say which band is higher.
\<close>

datatype ProficiencyLevel = A0 | A1 | A2 | B1 | B2 | C1 | C2

fun levelCode :: "ProficiencyLevel \<Rightarrow> string" where
  "levelCode A0 = ''A0''"
| "levelCode A1 = ''A1''"
| "levelCode A2 = ''A2''"
| "levelCode B1 = ''B1''"
| "levelCode B2 = ''B2''"
| "levelCode C1 = ''C1''"
| "levelCode C2 = ''C2''"

fun levelRank :: "ProficiencyLevel \<Rightarrow> nat" where
  "levelRank A0 = 0"
| "levelRank A1 = 1"
| "levelRank A2 = 2"
| "levelRank B1 = 3"
| "levelRank B2 = 4"
| "levelRank C1 = 5"
| "levelRank C2 = 6"

text \<open>The display range that belongs to each band code, as the certificate prints it.\<close>

definition bandRange :: "string \<Rightarrow> string" where
  "bandRange cefr =
     (if cefr = ''C2'' then ''86-100''
      else if cefr = ''C1'' then ''71-85''
      else if cefr = ''B2'' then ''51-70''
      else if cefr = ''B1'' then ''41-50''
      else if cefr = ''A2'' then ''21-40''
      else if cefr = ''A1'' then ''11-20''
      else if cefr = ''A0'' then ''0-10''
      else '''')"

text \<open>
  Rounding to the nearest integer with a tie going away from zero, the other reading of
  "round half up"; it differs from \<open>Math.round\<close> on negative ties only.
\<close>

definition round_half_away :: "rat \<Rightarrow> int" where
  "round_half_away x = (if x < 0 then - \<lfloor>- x + 1 / 2\<rfloor> else \<lfloor>x + 1 / 2\<rfloor>)"

text \<open>The function's environment has its three settings.\<close>

definition configured :: "denoEnv \<Rightarrow> bool" where
  "configured env =
     (envOrEmpty (PAYSTACK_SECRET_KEY env) \<noteq> []
      \<and> envOrEmpty (SUPABASE_URL env) \<noteq> []
      \<and> envOrEmpty (SUPABASE_SERVICE_ROLE_KEY env) \<noteq> [])"

text \<open>
  Concrete inputs for the instances below: a configured environment, a gateway that
  answers every reference with the same JSON, a row of the table and a server side on
  which every call succeeds.
\<close>

definition exampleEnv :: denoEnv where
  "exampleEnv =
     \<lparr> PAYSTACK_SECRET_KEY = Some ''sk_test_1'', SUPABASE_URL = Some ''https://db.example'',
       SUPABASE_SERVICE_ROLE_KEY = Some ''service-role-1'' \<rparr>"

definition reporting :: "string \<Rightarrow> verifyJson" where
  "reporting st = \<lparr> data_status = Some st, data_amount = Some 250000, raw = [] \<rparr>"

definition answering :: "verifyJson \<Rightarrow> string \<Rightarrow> fetchResult" where
  "answering json ref = HttpAnswer True json"

definition exampleRow :: "string \<Rightarrow> string \<Rightarrow> paymentRow" where
  "exampleRow ref st =
     \<lparr> user_id = ''user-1'', amount = 250000, purpose = ''reattempt'', reference = ref,
       status = st, paystack_response = CallbackPayload [] \<rparr>"

definition exampleBackend :: "verifyJson \<Rightarrow> backend" where
  "exampleBackend json =
     \<lparr> functionEnv = exampleEnv, gateway = answering json, insertResult = DbOk,
       updateResult = DbOk \<rparr>"

text \<open>The table after a verification of \<open>ref\<close> that the store carries out.\<close>

abbreviation reconciled ::
  "denoEnv \<Rightarrow> (string \<Rightarrow> fetchResult) \<Rightarrow> string \<Rightarrow> paymentRow list \<Rightarrow> paymentRow list" where
  "reconciled env gw ref rows \<equiv> snd (handler env (JsonBody (Some ref)) gw DbOk rows)"

section \<open>Properties of the score bands\<close>

lemma levelCode_inject: "levelCode l = levelCode l' \<Longrightarrow> l = l'"
  by (cases l; cases l') simp_all

lemma scoreToCefr_level:
  "scoreToCefr a = levelCode
     (if a \<ge> 86 then C2 else if a \<ge> 71 then C1 else if a \<ge> 51 then B2
      else if a \<ge> 41 then B1 else if a \<ge> 21 then A2 else if a \<ge> 11 then A1 else A0)"
  by (simp add: scoreToCefr_def)

lemma Math_round_quarter: "Math_round (of_int n / 4) = (n + 2) div 4"
proof -
  have "(of_int n / 4 + 1 / 2 :: rat) = of_int (n + 2) / of_int 4"
    by (simp add: field_simps)
  then have "Math_round (of_int n / 4) = \<lfloor>(of_int (n + 2) / of_int 4 :: rat)\<rfloor>"
    by (simp only: Math_round_def)
  also have "\<dots> = (n + 2) div 4"
    by (rule floor_divide_of_int_eq)
  finally show ?thesis .
qed

lemma totalScoreOf_div: "totalScoreOf l r w s = (l + r + w + s + 2) div 4"
  unfolding totalScoreOf_def by (rule Math_round_quarter)

text \<open>
  Claim C4. The boundary table of the classifier: 10 is A0, 11 and 20 are A1, 21 and 40
  are A2, 41 and 50 are B1, 51 and 70 are B2, 71 and 85 are C1, 86 is C2.
\<close>

theorem scoreToCefr_boundary_table:
  "scoreToCefr 10 = ''A0'' \<and> scoreToCefr 11 = ''A1'' \<and> scoreToCefr 20 = ''A1''
   \<and> scoreToCefr 21 = ''A2'' \<and> scoreToCefr 40 = ''A2'' \<and> scoreToCefr 41 = ''B1''
   \<and> scoreToCefr 50 = ''B1'' \<and> scoreToCefr 51 = ''B2'' \<and> scoreToCefr 70 = ''B2''
   \<and> scoreToCefr 71 = ''C1'' \<and> scoreToCefr 85 = ''C1'' \<and> scoreToCefr 86 = ''C2''"
  by (simp add: scoreToCefr_def)

text \<open>
  Claim C7. The classifier is total and monotonic over all integers: every integer is
  mapped to the code of exactly one band; for \<open>a \<le> b\<close> the band of \<open>a\<close> is never higher
  than the band of \<open>b\<close>; every negative score is in A0 and every score above 100 is in C2.
\<close>

theorem scoreToCefr_total_monotonic:
  "(\<exists>!l. scoreToCefr a = levelCode l)
   \<and> (a \<le> b \<longrightarrow>
        (\<exists>la lb. scoreToCefr a = levelCode la \<and> scoreToCefr b = levelCode lb
                 \<and> levelRank la \<le> levelRank lb))
   \<and> (a < 0 \<longrightarrow> scoreToCefr a = levelCode A0)
   \<and> (100 < a \<longrightarrow> scoreToCefr a = levelCode C2)"
proof (intro conjI impI)
  show "\<exists>!l. scoreToCefr a = levelCode l"
  proof (rule ex_ex1I)
    show "\<exists>l. scoreToCefr a = levelCode l"
      using scoreToCefr_level [of a] by blast
  next
    fix l l'
    assume "scoreToCefr a = levelCode l" and "scoreToCefr a = levelCode l'"
    then show "l = l'"
      by (simp add: levelCode_inject)
  qed
next
  assume le: "a \<le> b"
  let ?lv = "\<lambda>x::int. if x \<ge> 86 then C2 else if x \<ge> 71 then C1 else if x \<ge> 51 then B2
      else if x \<ge> 41 then B1 else if x \<ge> 21 then A2 else if x \<ge> 11 then A1 else A0"
  have "levelRank (?lv a) \<le> levelRank (?lv b)"
    using le by simp
  moreover have "scoreToCefr a = levelCode (?lv a)" and "scoreToCefr b = levelCode (?lv b)"
    by (rule scoreToCefr_level)+
  ultimately show "\<exists>la lb. scoreToCefr a = levelCode la \<and> scoreToCefr b = levelCode lb
                 \<and> levelRank la \<le> levelRank lb"
    by blast
next
  assume "a < 0"
  then show "scoreToCefr a = levelCode A0"
    by (simp add: scoreToCefr_def)
next
  assume "100 < a"
  then show "scoreToCefr a = levelCode C2"
    by (simp add: scoreToCefr_def)
qed

theorem scoreToCefr_total_monotonic_witness:
  "(-5::int) \<le> 150 \<and> (-5::int) < 0 \<and> (100::int) < 150
   \<and> (\<exists>la lb. scoreToCefr (-5) = levelCode la \<and> scoreToCefr 150 = levelCode lb
              \<and> levelRank la \<le> levelRank lb)
   \<and> scoreToCefr (-5) = levelCode A0 \<and> scoreToCefr 150 = levelCode C2"
proof -
  have bounds: "(-5::int) \<le> 150 \<and> (-5::int) < 0 \<and> (100::int) < 150"
    by simp
  have low: "(\<exists>la lb. scoreToCefr (-5) = levelCode la \<and> scoreToCefr 150 = levelCode lb
               \<and> levelRank la \<le> levelRank lb)
             \<and> scoreToCefr (-5) = levelCode A0"
    using scoreToCefr_total_monotonic [of "-5" 150] bounds by blast
  have high: "scoreToCefr 150 = levelCode C2"
    using scoreToCefr_total_monotonic [of 150 150] bounds by blast
  from bounds low high show ?thesis
    by blast
qed

text \<open>
  Claim C10. For every integer score \<open>getScoreRange\<close> returns the display range of the
  band \<open>scoreToCefr\<close> assigns, and the two functions cut the integers into the same
  seven classes.
\<close>

theorem getScoreRange_agrees_scoreToCefr:
  "getScoreRange score = bandRange (scoreToCefr score)
   \<and> ((getScoreRange a = getScoreRange b) = (scoreToCefr a = scoreToCefr b))"
  by (simp add: getScoreRange_def scoreToCefr_def bandRange_def)

section \<open>Properties of the overall score and of the record\<close>

lemma Math_round_of_int: "Math_round (of_int n) = n"
proof -
  have "\<lfloor>(of_int n + 1 / 2 :: rat)\<rfloor> = n"
    by (rule floor_unique) simp_all
  then show ?thesis
    by (simp add: Math_round_def)
qed

text \<open>
  Claim C5. The overall score is the mean of the four scores rounded to the nearest
  integer, a fractional part of exactly one half going up; on the non-negative sums of
  a score set this is also the rounding away from zero. The mean of 70, 80, 90, 60 gives
  75 and the mean of 0, 0, 0, 1 gives 0.
\<close>

theorem totalScoreOf_rounds_half_up:
  "totalScoreOf l r w s = \<lfloor>(of_int (l + r + w + s) / 4 :: rat) + 1 / 2\<rfloor>
   \<and> (of_int (l + r + w + s) / 4 :: rat) - 1 / 2 < of_int (totalScoreOf l r w s)
   \<and> of_int (totalScoreOf l r w s) \<le> (of_int (l + r + w + s) / 4 :: rat) + 1 / 2
   \<and> ((l + r + w + s) mod 4 = 2 \<longrightarrow>
        of_int (totalScoreOf l r w s) = (of_int (l + r + w + s) / 4 :: rat) + 1 / 2)
   \<and> (0 \<le> l + r + w + s \<longrightarrow>
        totalScoreOf l r w s = round_half_away (of_int (l + r + w + s) / 4))
   \<and> totalScoreOf 70 80 90 60 = 75
   \<and> totalScoreOf 0 0 0 1 = 0"
proof -
  define n where "n = l + r + w + s"
  define m :: rat where "m = of_int n / 4"
  have t: "totalScoreOf l r w s = \<lfloor>m + 1 / 2\<rfloor>"
    by (simp add: totalScoreOf_def Math_round_def m_def n_def)
  have lower: "m - 1 / 2 < of_int \<lfloor>m + 1 / 2\<rfloor>"
    by linarith
  have upper: "of_int \<lfloor>m + 1 / 2\<rfloor> \<le> m + 1 / 2"
    by (rule of_int_floor_le)
  have tie: "of_int \<lfloor>m + 1 / 2\<rfloor> = m + 1 / 2" if "n mod 4 = 2"
  proof -
    define k where "k = n div 4"
    have k: "n = 4 * k + 2"
      unfolding k_def using that by presburger
    have "m + 1 / 2 = of_int (k + 1)"
      unfolding m_def by (subst k) (simp add: field_simps)
    then show ?thesis
      by (simp del: of_int_add)
  qed
  have away: "\<lfloor>m + 1 / 2\<rfloor> = round_half_away m" if "0 \<le> n"
  proof -
    have "0 \<le> m"
      using that by (simp add: m_def)
    then show ?thesis
      by (simp add: round_half_away_def)
  qed
  have ex1: "totalScoreOf 70 80 90 60 = 75"
    by (simp add: totalScoreOf_div)
  have ex2: "totalScoreOf 0 0 0 1 = 0"
    by (simp add: totalScoreOf_div)
  from t lower upper tie away ex1 ex2 show ?thesis
    unfolding m_def n_def by simp
qed

theorem totalScoreOf_rounds_half_up_witness:
  "(0 + 0 + 1 + 1 :: int) mod 4 = 2 \<and> (0::int) \<le> 0 + 0 + 1 + 1
   \<and> totalScoreOf 0 0 1 1 = 1
   \<and> totalScoreOf 0 0 1 1 = round_half_away (1 / 2)"
proof -
  have h: "(0 + 0 + 1 + 1 :: int) mod 4 = 2 \<and> (0::int) \<le> 0 + 0 + 1 + 1"
    by simp
  have "rat_of_int (totalScoreOf 0 0 1 1) = 1
        \<and> totalScoreOf 0 0 1 1 = round_half_away (of_int (0 + 0 + 1 + 1) / 4)"
    using totalScoreOf_rounds_half_up [of 0 0 1 1] h by simp
  then show ?thesis
    using h by simp
qed

text \<open>
  On a negative tie \<open>Math.round\<close> goes up, towards zero: the mean \<open>-1/2\<close> gives 0, where
  rounding away from zero gives \<open>-1\<close>.
\<close>

lemma totalScoreOf_negative_tie:
  "totalScoreOf (-1) (-1) 0 0 = 0 \<and> round_half_away (of_int (-1 + -1 + 0 + 0) / 4) = -1"
proof -
  have "\<lfloor>(1 :: rat)\<rfloor> = 1"
    by simp
  then show ?thesis
    by (simp add: totalScoreOf_div round_half_away_def)
qed

text \<open>
  Claim C6. With a session and an attempt, the builder produces a record in which each
  skill score is the rounded raw score, a null raw score counting as 0, the overall
  score is the rounded mean of the four skill scores, and each of the five band codes
  is the classifier's value on its score. A null score gives the same record as a score
  of 0. The attempt with listening null and the other three scores 55 gives listening 0,
  overall score 41 and overall band B1.
\<close>

theorem fetchCertificateData_scores:
  "(\<exists>c. fetchCertificateData (Some uid) routeId (QueryData a) full_name cachedName cert = Some c
        \<and> scores_listening c = Math_round (case listening_score a of None \<Rightarrow> 0 | Some v \<Rightarrow> v)
        \<and> scores_reading c = Math_round (case reading_score a of None \<Rightarrow> 0 | Some v \<Rightarrow> v)
        \<and> scores_writing c = Math_round (case writing_score a of None \<Rightarrow> 0 | Some v \<Rightarrow> v)
        \<and> scores_speaking c = Math_round (case speaking_score a of None \<Rightarrow> 0 | Some v \<Rightarrow> v)
        \<and> totalScore c = totalScoreOf (scores_listening c) (scores_reading c)
                            (scores_writing c) (scores_speaking c)
        \<and> cefr_listening c = scoreToCefr (scores_listening c)
        \<and> cefr_reading c = scoreToCefr (scores_reading c)
        \<and> cefr_writing c = scoreToCefr (scores_writing c)
        \<and> cefr_speaking c = scoreToCefr (scores_speaking c)
        \<and> cefr_overall c = scoreToCefr (totalScore c))
   \<and> fetchCertificateData (Some uid) routeId (QueryData (a\<lparr>listening_score := None\<rparr>))
        full_name cachedName cert
      = fetchCertificateData (Some uid) routeId (QueryData (a\<lparr>listening_score := Some 0\<rparr>))
        full_name cachedName cert
   \<and> (\<exists>c. fetchCertificateData (Some uid) routeId
          (QueryData \<lparr>listening_score = None, reading_score = Some 55,
                      writing_score = Some 55, speaking_score = Some 55, test_date = d\<rparr>)
          full_name cachedName cert = Some c
        \<and> scores_listening c = 0 \<and> totalScore c = 41 \<and> cefr_overall c = ''B1'')"
proof (intro conjI)
  show "\<exists>c. fetchCertificateData (Some uid) routeId (QueryData a) full_name cachedName cert = Some c
        \<and> scores_listening c = Math_round (case listening_score a of None \<Rightarrow> 0 | Some v \<Rightarrow> v)
        \<and> scores_reading c = Math_round (case reading_score a of None \<Rightarrow> 0 | Some v \<Rightarrow> v)
        \<and> scores_writing c = Math_round (case writing_score a of None \<Rightarrow> 0 | Some v \<Rightarrow> v)
        \<and> scores_speaking c = Math_round (case speaking_score a of None \<Rightarrow> 0 | Some v \<Rightarrow> v)
        \<and> totalScore c = totalScoreOf (scores_listening c) (scores_reading c)
                            (scores_writing c) (scores_speaking c)
        \<and> cefr_listening c = scoreToCefr (scores_listening c)
        \<and> cefr_reading c = scoreToCefr (scores_reading c)
        \<and> cefr_writing c = scoreToCefr (scores_writing c)
        \<and> cefr_speaking c = scoreToCefr (scores_speaking c)
        \<and> cefr_overall c = scoreToCefr (totalScore c)"
    by (simp add: fetchCertificateData_def nullish0_def Let_def)
next
  show "fetchCertificateData (Some uid) routeId (QueryData (a\<lparr>listening_score := None\<rparr>))
        full_name cachedName cert
      = fetchCertificateData (Some uid) routeId (QueryData (a\<lparr>listening_score := Some 0\<rparr>))
        full_name cachedName cert"
    by (simp add: fetchCertificateData_def nullish0_def)
next
  have r55: "Math_round 55 = 55" and r0: "Math_round 0 = 0"
    using Math_round_of_int [of 55] Math_round_of_int [of 0] by simp_all
  have t: "totalScoreOf 0 55 55 55 = 41"
    by (simp add: totalScoreOf_div)
  have b1: "scoreToCefr 41 = ''B1''"
    by (simp add: scoreToCefr_def)
  show "\<exists>c. fetchCertificateData (Some uid) routeId
          (QueryData \<lparr>listening_score = None, reading_score = Some 55,
                      writing_score = Some 55, speaking_score = Some 55, test_date = d\<rparr>)
          full_name cachedName cert = Some c
        \<and> scores_listening c = 0 \<and> totalScore c = 41 \<and> cefr_overall c = ''B1''"
    by (simp add: fetchCertificateData_def nullish0_def Let_def r55 r0 t b1)
qed

section \<open>Properties of the decimal text\<close>

lemma toString_small: "n < 10 \<Longrightarrow> toString n = [digitChar n]"
  by (subst toString.simps) simp

lemma toString_step: "10 \<le> n \<Longrightarrow> toString n = toString (n div 10) @ [digitChar (n mod 10)]"
  by (subst toString.simps) simp

lemma toString_nonempty: "toString n \<noteq> []"
  by (subst toString.simps) simp

lemma digitChar_inject:
  assumes "a < 10" and "b < 10" and "digitChar a = digitChar b"
  shows "a = b"
proof -
  have "distinct ''0123456789''"
    by simp
  moreover from assms(1,2) have "a < length ''0123456789''" and "b < length ''0123456789''"
    by simp_all
  ultimately show ?thesis
    using assms by (simp add: digitChar_def nth_eq_iff_index_eq del: distinct.simps)
qed

lemma toString_inject: "toString a = toString b \<Longrightarrow> a = b"
proof (induction a arbitrary: b rule: toString.induct)
  case (1 a)
  show ?case
  proof (cases "a < 10")
    case small: True
    show ?thesis
    proof (cases "b < 10")
      case True
      with small "1.prems" show ?thesis
        by (simp add: toString_small digitChar_inject)
    next
      case False
      then have "toString b = toString (b div 10) @ [digitChar (b mod 10)]"
        by (simp add: toString_step)
      with small "1.prems" show ?thesis
        by (simp add: toString_small toString_nonempty toString_nonempty [symmetric])
    qed
  next
    case big: False
    then have sa: "toString a = toString (a div 10) @ [digitChar (a mod 10)]"
      by (simp add: toString_step)
    show ?thesis
    proof (cases "b < 10")
      case True
      with sa "1.prems" show ?thesis
        by (simp add: toString_small toString_nonempty toString_nonempty [symmetric])
    next
      case False
      then have sb: "toString b = toString (b div 10) @ [digitChar (b mod 10)]"
        by (simp add: toString_step)
      from sa sb "1.prems" have hd: "toString (a div 10) = toString (b div 10)"
        and tl: "digitChar (a mod 10) = digitChar (b mod 10)"
        by simp_all
      from "1.IH" [OF big hd] have "a div 10 = b div 10" .
      moreover from tl have "a mod 10 = b mod 10"
        by (simp add: digitChar_inject)
      ultimately show ?thesis
        by (metis div_mult_mod_eq)
    qed
  qed
qed


section \<open>Properties of the verify-payment function\<close>

lemma exampleEnv_configured: "configured exampleEnv"
  by (simp add: configured_def exampleEnv_def envOrEmpty_def)

lemma handler_updates:
  assumes "configured env" and "ref \<noteq> []" and "gw ref = HttpAnswer True json"
  shows "handler env (JsonBody (Some ref)) gw DbOk rows =
           (Returns (Response (StatusAmount (data_status json) (data_amount json)) 200),
            updateByReference ref
              (if data_status json = Some ''success'' then ''verified'' else ''failed'')
              (GatewayAnswer json) rows)"
  using assms by (simp add: handler_def configured_def)

lemma updateByReference_absent:
  "ref \<notin> reference ` set rows \<Longrightarrow> updateByReference ref st resp rows = rows"
  unfolding updateByReference_def by (induction rows) auto

lemma updateByReference_twice:
  "updateByReference ref st' resp' (updateByReference ref st resp rows)
     = updateByReference ref st' resp' rows"
  unfolding updateByReference_def by (induction rows) auto

lemma updateByReference_references:
  "map reference (updateByReference ref st resp rows) = map reference rows"
  unfolding updateByReference_def by (induction rows) auto

lemma updateByReference_row:
  assumes "r' \<in> set (updateByReference ref st resp rows)" and "reference r' = ref"
  shows "status r' = st \<and> paystack_response r' = resp"
proof -
  from assms(1) have "r' \<in> (\<lambda>r. if reference r = ref
      then r\<lparr>status := st, paystack_response := resp\<rparr> else r) ` set rows"
    by (simp only: updateByReference_def set_map)
  then obtain r where
    r': "r' = (if reference r = ref then r\<lparr>status := st, paystack_response := resp\<rparr> else r)"
    by blast
  show ?thesis
  proof (cases "reference r = ref")
    case True
    with r' show ?thesis by simp
  next
    case False
    with r' assms(2) show ?thesis by simp
  qed
qed

lemma updateByReference_present:
  "ref \<in> reference ` set rows \<Longrightarrow> ref \<in> reference ` set (updateByReference ref st resp rows)"
proof -
  have "reference ` set (updateByReference ref st resp rows)
      = set (map reference (updateByReference ref st resp rows))"
    by simp
  also have "\<dots> = set (map reference rows)"
    by (simp only: updateByReference_references)
  also have "\<dots> = reference ` set rows"
    by simp
  finally show "ref \<in> reference ` set rows
      \<Longrightarrow> ref \<in> reference ` set (updateByReference ref st resp rows)"
    by simp
qed

lemma updateByReference_others:
  "i < length rows \<Longrightarrow> reference (rows ! i) \<noteq> ref
     \<Longrightarrow> updateByReference ref st resp rows ! i = rows ! i"
  unfolding updateByReference_def by simp

lemma updateByReference_same_status:
  "\<forall>r\<in>set rows. reference r = ref \<longrightarrow> status r = st
     \<Longrightarrow> map status (updateByReference ref st resp rows) = map status rows"
  unfolding updateByReference_def by (induction rows) auto

lemma handler_table_cases:
  "snd (handler env req gw db rows) = rows
   \<or> (\<exists>ref json. req = JsonBody (Some ref) \<and> ref \<noteq> [] \<and> gw ref = HttpAnswer True json
        \<and> snd (handler env req gw db rows)
            = updateByReference ref
                (if data_status json = Some ''success'' then ''verified'' else ''failed'')
                (GatewayAnswer json) rows)"
proof (cases req)
  case MalformedBody
  then show ?thesis
    by (simp add: handler_def Let_def)
next
  case (JsonBody reference)
  show ?thesis
  proof (cases reference)
    case None
    with JsonBody show ?thesis
      by (simp add: handler_def Let_def)
  next
    case (Some ref)
    show ?thesis
    proof (cases "gw ref")
      case FetchFails
      with JsonBody Some show ?thesis
        by (simp add: handler_def Let_def)
    next
      case (HttpAnswer ok json)
      show ?thesis
      proof (cases "configured env \<and> ref \<noteq> [] \<and> ok \<and> db = DbOk")
        case True
        with HttpAnswer have pre: "configured env" "ref \<noteq> []" "gw ref = HttpAnswer True json"
          and db: "db = DbOk"
          by simp_all
        have "snd (handler env (JsonBody (Some ref)) gw DbOk rows)
            = updateByReference ref
                (if data_status json = Some ''success'' then ''verified'' else ''failed'')
                (GatewayAnswer json) rows"
          by (simp only: handler_updates [of env ref gw json, OF pre] snd_conv)
        with pre db JsonBody Some show ?thesis
          by blast
      next
        case False
        with JsonBody Some HttpAnswer have "snd (handler env req gw db rows) = rows"
          by (cases db) (auto simp: handler_def Let_def configured_def)
        then show ?thesis ..
      qed
    qed
  qed
qed

lemma handler_outcome_independent:
  "fst (handler env req gw db rows) = fst (handler env req gw db rows')"
  by (auto simp: handler_def Let_def
      split: request.splits option.splits fetchResult.splits dbResult.splits)



lemma updateByReference_statuses:
  "map status (updateByReference ref st resp rows)
     = map (\<lambda>r. if reference r = ref then st else status r) rows"
  unfolding updateByReference_def by (induction rows) simp_all

lemma updateByReference_restated:
  "map status (updateByReference ref st resp' (updateByReference ref st resp rows))
     = map status (updateByReference ref st resp rows)"
  by (simp only: updateByReference_twice updateByReference_statuses)

text \<open>
  Claim C2, as the code has it. The handler never looks a reference up: its outcome is
  the same whatever the table holds. For a reference that no row of the table has, the
  table is left as it is, whatever the environment, the gateway and the store answer;
  and when the environment is configured, the gateway answers and the store accepts
  the update, the outcome is the response 200 with the gateway's status and amount, not
  an error.
\<close>

theorem handler_unknown_reference:
  assumes "ref \<notin> reference ` set rows"
  shows "snd (handler env (JsonBody (Some ref)) gw db rows) = rows
    \<and> fst (handler env (JsonBody (Some ref)) gw db rows)
        = fst (handler env (JsonBody (Some ref)) gw db rows')
    \<and> (configured env \<and> ref \<noteq> [] \<and> gw ref = HttpAnswer True json \<and> db = DbOk \<longrightarrow>
         fst (handler env (JsonBody (Some ref)) gw db rows)
           = Returns (Response (StatusAmount (data_status json) (data_amount json)) 200)
         \<and> \<not> isError (fst (handler env (JsonBody (Some ref)) gw db rows)))"
proof (intro conjI impI)
  show "snd (handler env (JsonBody (Some ref)) gw db rows) = rows"
    using handler_table_cases [of env "JsonBody (Some ref)" gw db rows] assms
    by (auto simp: updateByReference_absent)
next
  show "fst (handler env (JsonBody (Some ref)) gw db rows)
        = fst (handler env (JsonBody (Some ref)) gw db rows')"
    by (rule handler_outcome_independent)
next
  assume h: "configured env \<and> ref \<noteq> [] \<and> gw ref = HttpAnswer True json \<and> db = DbOk"
  then have pre: "configured env" "ref \<noteq> []" "gw ref = HttpAnswer True json" and db: "db = DbOk"
    by simp_all
  show "fst (handler env (JsonBody (Some ref)) gw db rows)
           = Returns (Response (StatusAmount (data_status json) (data_amount json)) 200)"
    unfolding db by (simp only: handler_updates [of env ref gw json, OF pre] fst_conv)
  show "\<not> isError (fst (handler env (JsonBody (Some ref)) gw db rows))"
    unfolding db by (simp add: handler_updates [of env ref gw json, OF pre])
qed

text \<open>
  The claim as written fails: on the empty table, with the gateway reporting
  \<open>success\<close>, the handler answers 200 for a reference the table does not have.
\<close>

theorem handler_unknown_reference_counterexample:
  "''1700000000000'' \<notin> reference ` set []
   \<and> handler exampleEnv (JsonBody (Some ''1700000000000'')) (answering (reporting ''success''))
       DbOk []
     = (Returns (Response (StatusAmount (Some ''success'') (Some 250000)) 200), [])
   \<and> \<not> isError (fst (handler exampleEnv (JsonBody (Some ''1700000000000''))
                       (answering (reporting ''success'')) DbOk []))"
proof -
  have ans: "answering (reporting ''success'') ''1700000000000''
      = HttpAnswer True (reporting ''success'')"
    by (simp add: answering_def)
  have "handler exampleEnv (JsonBody (Some ''1700000000000'')) (answering (reporting ''success''))
       DbOk []
     = (Returns (Response (StatusAmount (Some ''success'') (Some 250000)) 200), [])"
    using handler_updates [of exampleEnv "''1700000000000''" "answering (reporting ''success'')"
        "reporting ''success''" "[]", OF exampleEnv_configured _ ans]
    by (simp add: reporting_def updateByReference_def)
  then show ?thesis
    by simp
qed

theorem handler_unknown_reference_witness:
  "''ref-2'' \<notin> reference ` set [exampleRow ''ref-1'' ''success'']
   \<and> configured exampleEnv \<and> ''ref-2'' \<noteq> []
   \<and> answering (reporting ''success'') ''ref-2'' = HttpAnswer True (reporting ''success'')
   \<and> handler exampleEnv (JsonBody (Some ''ref-2'')) (answering (reporting ''success'')) DbOk
       [exampleRow ''ref-1'' ''success'']
     = (Returns (Response (StatusAmount (Some ''success'') (Some 250000)) 200),
        [exampleRow ''ref-1'' ''success''])"
proof -
  have absent: "''ref-2'' \<notin> reference ` set [exampleRow ''ref-1'' ''success'']"
    by (simp add: exampleRow_def)
  have pre: "configured exampleEnv \<and> ''ref-2'' \<noteq> []
    \<and> answering (reporting ''success'') ''ref-2'' = HttpAnswer True (reporting ''success'')
    \<and> DbOk = DbOk"
    by (simp add: exampleEnv_configured answering_def)
  from handler_unknown_reference [OF absent, of exampleEnv "answering (reporting ''success'')"
      DbOk "[]" "reporting ''success''"] pre
  have "snd (handler exampleEnv (JsonBody (Some ''ref-2'')) (answering (reporting ''success''))
          DbOk [exampleRow ''ref-1'' ''success'']) = [exampleRow ''ref-1'' ''success'']"
    and "fst (handler exampleEnv (JsonBody (Some ''ref-2'')) (answering (reporting ''success''))
          DbOk [exampleRow ''ref-1'' ''success''])
         = Returns (Response (StatusAmount (data_status (reporting ''success''))
              (data_amount (reporting ''success''))) 200)"
    by blast+
  then have "handler exampleEnv (JsonBody (Some ''ref-2'')) (answering (reporting ''success''))
       DbOk [exampleRow ''ref-1'' ''success'']
     = (Returns (Response (StatusAmount (Some ''success'') (Some 250000)) 200),
        [exampleRow ''ref-1'' ''success''])"
    by (simp add: prod_eq_iff reporting_def)
  with absent pre show ?thesis
    by blast
qed

text \<open>
  Claim C3. For a reference present in the table, when the handler gets the gateway's
  report (configured environment, an \<open>ok\<close> answer, the store carrying out the update),
  every row with that reference is stored as \<open>verified\<close> exactly when the reported
  status is \<open>success\<close> and as \<open>failed\<close> exactly when it is anything else, an absent
  status included; the rows keep their references and the rows of other references
  are untouched.
\<close>

theorem handler_stores_gateway_status:
  assumes "configured env" and "ref \<noteq> []" and "gw ref = HttpAnswer True json"
    and "ref \<in> reference ` set rows"
  shows "(\<exists>r'\<in>set (snd (handler env (JsonBody (Some ref)) gw DbOk rows)). reference r' = ref)
    \<and> (\<forall>r'\<in>set (snd (handler env (JsonBody (Some ref)) gw DbOk rows)).
          reference r' = ref \<longrightarrow>
            (status r' = ''verified'') = (data_status json = Some ''success'')
            \<and> (status r' = ''failed'') = (data_status json \<noteq> Some ''success'')
            \<and> paystack_response r' = GatewayAnswer json)
    \<and> map reference (snd (handler env (JsonBody (Some ref)) gw DbOk rows)) = map reference rows
    \<and> (\<forall>i<length rows. reference (rows ! i) \<noteq> ref \<longrightarrow>
          snd (handler env (JsonBody (Some ref)) gw DbOk rows) ! i = rows ! i)"
proof -
  let ?st = "if data_status json = Some ''success'' then ''verified'' else ''failed''"
  have tab: "snd (handler env (JsonBody (Some ref)) gw DbOk rows)
      = updateByReference ref ?st (GatewayAnswer json) rows"
    by (simp only: handler_updates [of env ref gw json, OF assms(1-3)] snd_conv)
  have present: "\<exists>r'\<in>set (updateByReference ref ?st (GatewayAnswer json) rows). reference r' = ref"
    using updateByReference_present [OF assms(4)] by auto
  have row: "status r' = ?st \<and> paystack_response r' = GatewayAnswer json"
    if "r' \<in> set (updateByReference ref ?st (GatewayAnswer json) rows)" and "reference r' = ref"
    for r'
    using that by (rule updateByReference_row)
  show ?thesis
    unfolding tab
  proof (intro conjI ballI allI impI)
    show "\<exists>r'\<in>set (updateByReference ref ?st (GatewayAnswer json) rows). reference r' = ref"
      by (rule present)
  next
    fix r' assume "r' \<in> set (updateByReference ref ?st (GatewayAnswer json) rows)" "reference r' = ref"
    from row [OF this] show "(status r' = ''verified'') = (data_status json = Some ''success'')"
      by simp
  next
    fix r' assume "r' \<in> set (updateByReference ref ?st (GatewayAnswer json) rows)" "reference r' = ref"
    from row [OF this] show "(status r' = ''failed'') = (data_status json \<noteq> Some ''success'')"
      by simp
  next
    fix r' assume "r' \<in> set (updateByReference ref ?st (GatewayAnswer json) rows)" "reference r' = ref"
    from row [OF this] show "paystack_response r' = GatewayAnswer json"
      by simp
  next
    show "map reference (updateByReference ref ?st (GatewayAnswer json) rows) = map reference rows"
      by (rule updateByReference_references)
  next
    fix i assume "i < length rows" "reference (rows ! i) \<noteq> ref"
    then show "updateByReference ref ?st (GatewayAnswer json) rows ! i = rows ! i"
      by (rule updateByReference_others)
  qed
qed


theorem handler_stores_gateway_status_witness:
  "configured exampleEnv \<and> ''ref-1'' \<noteq> []
   \<and> answering (reporting ''abandoned'') ''ref-1'' = HttpAnswer True (reporting ''abandoned'')
   \<and> ''ref-1'' \<in> reference ` set [exampleRow ''ref-0'' ''success'', exampleRow ''ref-1'' ''success'']
   \<and> (0::nat) < length [exampleRow ''ref-0'' ''success'', exampleRow ''ref-1'' ''success'']
   \<and> reference ([exampleRow ''ref-0'' ''success'', exampleRow ''ref-1'' ''success''] ! 0) \<noteq> ''ref-1''
   \<and> (\<exists>r'\<in>set (snd (handler exampleEnv (JsonBody (Some ''ref-1''))
                      (answering (reporting ''abandoned'')) DbOk
                      [exampleRow ''ref-0'' ''success'', exampleRow ''ref-1'' ''success''])).
          reference r' = ''ref-1'' \<and> status r' = ''failed'')
   \<and> snd (handler exampleEnv (JsonBody (Some ''ref-1'')) (answering (reporting ''abandoned'')) DbOk
          [exampleRow ''ref-0'' ''success'', exampleRow ''ref-1'' ''success'']) ! 0
       = exampleRow ''ref-0'' ''success''"
proof -
  let ?rows = "[exampleRow ''ref-0'' ''success'', exampleRow ''ref-1'' ''success'']"
  let ?gw = "answering (reporting ''abandoned'')"
  have ans: "?gw ''ref-1'' = HttpAnswer True (reporting ''abandoned'')"
    by (simp add: answering_def)
  have ne: "''ref-1'' \<noteq> []"
    by simp
  have present: "''ref-1'' \<in> reference ` set ?rows"
    by (simp add: exampleRow_def)
  have other: "(0::nat) < length ?rows \<and> reference (?rows ! 0) \<noteq> ''ref-1''"
    by (simp add: exampleRow_def)
  have report: "data_status (reporting ''abandoned'') \<noteq> Some ''success''"
    by (simp add: reporting_def)
  note t = handler_stores_gateway_status [of exampleEnv "''ref-1''" ?gw "reporting ''abandoned''"
      ?rows, OF exampleEnv_configured ne ans present]
  from t report have "\<exists>r'\<in>set (snd (handler exampleEnv (JsonBody (Some ''ref-1'')) ?gw DbOk ?rows)).
          reference r' = ''ref-1'' \<and> status r' = ''failed''"
    by blast
  moreover from t other
  have "snd (handler exampleEnv (JsonBody (Some ''ref-1'')) ?gw DbOk ?rows) ! 0 = ?rows ! 0"
    by blast
  then have "snd (handler exampleEnv (JsonBody (Some ''ref-1'')) ?gw DbOk ?rows) ! 0
      = exampleRow ''ref-0'' ''success''"
    by simp
  ultimately show ?thesis
    using exampleEnv_configured ne ans present other by blast
qed

text \<open>
  Claim C8, as the code has it. Two verifications of a present reference in succession,
  the gateway reporting the same status both times: the statuses in the table after the
  second are those after the first. With \<open>success\<close> reported, the reference's rows are
  \<open>verified\<close> after each call. With the same JSON both times the second call returns
  what the first returned and leaves the first call's table. A reference already
  \<open>verified\<close> stays so when \<open>success\<close> is reported again, and one already \<open>failed\<close>
  stays so when something else is. The handler does not read the stored status: after
  a verification the status of the reference's rows is the one of the latest report,
  whatever was stored before.
\<close>

theorem handler_idempotent:
  assumes "configured env" and "ref \<noteq> []" and "ref \<in> reference ` set rows"
    and "gw1 ref = HttpAnswer True json1" and "gw2 ref = HttpAnswer True json2"
    and "data_status json1 = data_status json2"
  shows "map status (reconciled env gw2 ref (reconciled env gw1 ref rows))
           = map status (reconciled env gw1 ref rows)
    \<and> (data_status json1 = Some ''success'' \<longrightarrow>
          (\<exists>r\<in>set (reconciled env gw1 ref rows). reference r = ref)
          \<and> (\<forall>r\<in>set (reconciled env gw1 ref rows). reference r = ref \<longrightarrow> status r = ''verified'')
          \<and> (\<forall>r\<in>set (reconciled env gw2 ref (reconciled env gw1 ref rows)).
                reference r = ref \<longrightarrow> status r = ''verified''))
    \<and> (json1 = json2 \<longrightarrow>
          handler env (JsonBody (Some ref)) gw2 DbOk (reconciled env gw1 ref rows)
            = handler env (JsonBody (Some ref)) gw1 DbOk rows)
    \<and> ((\<forall>r\<in>set rows. reference r = ref \<longrightarrow> status r = ''verified'')
          \<and> data_status json1 = Some ''success'' \<longrightarrow>
          map status (reconciled env gw1 ref rows) = map status rows)
    \<and> ((\<forall>r\<in>set rows. reference r = ref \<longrightarrow> status r = ''failed'')
          \<and> data_status json1 \<noteq> Some ''success'' \<longrightarrow>
          map status (reconciled env gw1 ref rows) = map status rows)
    \<and> map status (reconciled env gw1 ref rows)
        = map (\<lambda>r. if reference r = ref
                    then if data_status json1 = Some ''success'' then ''verified'' else ''failed''
                    else status r) rows"
proof -
  let ?st1 = "if data_status json1 = Some ''success'' then ''verified'' else ''failed''"
  let ?st2 = "if data_status json2 = Some ''success'' then ''verified'' else ''failed''"
  let ?rows1 = "updateByReference ref ?st1 (GatewayAnswer json1) rows"
  let ?rows2 = "updateByReference ref ?st2 (GatewayAnswer json2) ?rows1"
  have h1: "handler env (JsonBody (Some ref)) gw1 DbOk rows
      = (Returns (Response (StatusAmount (data_status json1) (data_amount json1)) 200), ?rows1)"
    by (rule handler_updates [of env ref gw1 json1, OF assms(1,2,4)])
  have h2: "handler env (JsonBody (Some ref)) gw2 DbOk ?rows1
      = (Returns (Response (StatusAmount (data_status json2) (data_amount json2)) 200), ?rows2)"
    by (rule handler_updates [of env ref gw2 json2, OF assms(1,2,5)])
  have r1: "reconciled env gw1 ref rows = ?rows1"
    by (simp only: h1 snd_conv)
  have r2: "reconciled env gw2 ref ?rows1 = ?rows2"
    by (simp only: h2 snd_conv)
  have st: "?st2 = ?st1"
    using assms(6) by simp
  have once: "?rows2 = updateByReference ref ?st2 (GatewayAnswer json2) rows"
    by (rule updateByReference_twice)
  have stable: "map status ?rows2 = map status ?rows1"
    unfolding st by (rule updateByReference_restated)
  have present: "\<exists>r\<in>set ?rows1. reference r = ref"
    using updateByReference_present [OF assms(3)] by blast
  have v1: "status r = ?st1" if "r \<in> set ?rows1" and "reference r = ref" for r
    using updateByReference_row [OF that] by simp
  have v2: "status r = ?st2" if "r \<in> set ?rows2" and "reference r = ref" for r
    using updateByReference_row [OF that] by simp
  have same: "handler env (JsonBody (Some ref)) gw2 DbOk ?rows1
      = handler env (JsonBody (Some ref)) gw1 DbOk rows" if "json1 = json2"
    unfolding h1 h2 once using that by simp
  have keepv: "map status ?rows1 = map status rows"
    if "\<forall>r\<in>set rows. reference r = ref \<longrightarrow> status r = ?st1"
    using that by (rule updateByReference_same_status)
  show ?thesis
    unfolding r1 r2
  proof (intro conjI impI)
    show "map status ?rows2 = map status ?rows1"
      by (rule stable)
  next
    assume "data_status json1 = Some ''success''"
    show "\<exists>r\<in>set ?rows1. reference r = ref"
      by (rule present)
  next
    assume s: "data_status json1 = Some ''success''"
    show "\<forall>r\<in>set ?rows1. reference r = ref \<longrightarrow> status r = ''verified''"
      using v1 s by simp
  next
    assume s: "data_status json1 = Some ''success''"
    with assms(6) have "data_status json2 = Some ''success''"
      by simp
    then show "\<forall>r\<in>set ?rows2. reference r = ref \<longrightarrow> status r = ''verified''"
      using v2 by simp
  next
    assume "json1 = json2"
    then show "handler env (JsonBody (Some ref)) gw2 DbOk ?rows1
        = handler env (JsonBody (Some ref)) gw1 DbOk rows"
      by (rule same)
  next
    assume "(\<forall>r\<in>set rows. reference r = ref \<longrightarrow> status r = ''verified'')
        \<and> data_status json1 = Some ''success''"
    then show "map status ?rows1 = map status rows"
      using keepv by simp
  next
    assume "(\<forall>r\<in>set rows. reference r = ref \<longrightarrow> status r = ''failed'')
        \<and> data_status json1 \<noteq> Some ''success''"
    then show "map status ?rows1 = map status rows"
      using keepv by simp
  next
    show "map status ?rows1
        = map (\<lambda>r. if reference r = ref then ?st1 else status r) rows"
      by (rule updateByReference_statuses)
  qed
qed

text \<open>
  The claim as written fails: a \<open>verified\<close> reference becomes \<open>failed\<close> when the gateway
  reports \<open>abandoned\<close>, and a \<open>failed\<close> one becomes \<open>verified\<close> when it reports
  \<open>success\<close>.
\<close>

theorem handler_idempotent_counterexample:
  "map status (reconciled exampleEnv (answering (reporting ''abandoned'')) ''ref-1''
                 [exampleRow ''ref-1'' ''verified'']) = [''failed'']
   \<and> map status (reconciled exampleEnv (answering (reporting ''success'')) ''ref-1''
                    [exampleRow ''ref-1'' ''failed'']) = [''verified'']"
proof -
  have ne: "''ref-1'' \<noteq> []"
    by simp
  have a1: "answering (reporting ''abandoned'') ''ref-1'' = HttpAnswer True (reporting ''abandoned'')"
    and a2: "answering (reporting ''success'') ''ref-1'' = HttpAnswer True (reporting ''success'')"
    by (simp_all add: answering_def)
  have "reconciled exampleEnv (answering (reporting ''abandoned'')) ''ref-1''
          [exampleRow ''ref-1'' ''verified'']
      = updateByReference ''ref-1''
          (if data_status (reporting ''abandoned'') = Some ''success''
           then ''verified'' else ''failed'')
          (GatewayAnswer (reporting ''abandoned'')) [exampleRow ''ref-1'' ''verified'']"
    by (simp only: handler_updates [of exampleEnv "''ref-1''" "answering (reporting ''abandoned'')"
          "reporting ''abandoned''", OF exampleEnv_configured ne a1] snd_conv)
  then have first: "map status (reconciled exampleEnv (answering (reporting ''abandoned''))
      ''ref-1'' [exampleRow ''ref-1'' ''verified'']) = [''failed'']"
    by (simp add: updateByReference_def reporting_def exampleRow_def)
  have "reconciled exampleEnv (answering (reporting ''success'')) ''ref-1''
          [exampleRow ''ref-1'' ''failed'']
      = updateByReference ''ref-1''
          (if data_status (reporting ''success'') = Some ''success''
           then ''verified'' else ''failed'')
          (GatewayAnswer (reporting ''success'')) [exampleRow ''ref-1'' ''failed'']"
    by (simp only: handler_updates [of exampleEnv "''ref-1''" "answering (reporting ''success'')"
          "reporting ''success''", OF exampleEnv_configured ne a2] snd_conv)
  then have "map status (reconciled exampleEnv (answering (reporting ''success''))
      ''ref-1'' [exampleRow ''ref-1'' ''failed'']) = [''verified'']"
    by (simp add: updateByReference_def reporting_def exampleRow_def)
  with first show ?thesis
    by simp
qed

theorem handler_idempotent_witness:
  "configured exampleEnv \<and> ''ref-1'' \<noteq> []
   \<and> ''ref-1'' \<in> reference ` set [exampleRow ''ref-1'' ''verified'']
   \<and> answering (reporting ''success'') ''ref-1'' = HttpAnswer True (reporting ''success'')
   \<and> data_status (reporting ''success'') = Some ''success''
   \<and> map status (reconciled exampleEnv (answering (reporting ''success'')) ''ref-1''
          [exampleRow ''ref-1'' ''verified'']) = [''verified'']
   \<and> map status
         (reconciled exampleEnv (answering (reporting ''success'')) ''ref-1''
            (reconciled exampleEnv (answering (reporting ''success'')) ''ref-1''
               [exampleRow ''ref-1'' ''verified''])) = [''verified'']"
proof -
  let ?rows = "[exampleRow ''ref-1'' ''verified'']"
  let ?gw = "answering (reporting ''success'')"
  have ans: "?gw ''ref-1'' = HttpAnswer True (reporting ''success'')"
    by (simp add: answering_def)
  have ne: "''ref-1'' \<noteq> []"
    by simp
  have present: "''ref-1'' \<in> reference ` set ?rows"
    by (simp add: exampleRow_def)
  have report: "data_status (reporting ''success'') = Some ''success''"
    by (simp add: reporting_def)
  have already: "\<forall>r\<in>set ?rows. reference r = ''ref-1'' \<longrightarrow> status r = ''verified''"
    by (simp add: exampleRow_def)
  note t = handler_idempotent [of exampleEnv "''ref-1''" ?rows ?gw "reporting ''success''"
      ?gw "reporting ''success''", OF exampleEnv_configured ne present ans ans refl]
  from t already report
  have one: "map status (reconciled exampleEnv ?gw ''ref-1'' ?rows) = map status ?rows"
    by blast
  from t have two: "map status (reconciled exampleEnv ?gw ''ref-1''
        (reconciled exampleEnv ?gw ''ref-1'' ?rows))
      = map status (reconciled exampleEnv ?gw ''ref-1'' ?rows)"
    by blast
  have rows: "map status ?rows = [''verified'']"
    by (simp add: exampleRow_def)
  from one two rows exampleEnv_configured ne present ans report show ?thesis
    by simp
qed

section \<open>Properties of the payment modal\<close>

lemma insertRow_cases:
  "insertRow res row rows = rows \<or> insertRow res row rows = rows @ [row]"
  by (cases res) (simp_all add: insertRow_def)

lemma updateByReference_mem:
  assumes "r' \<in> set (updateByReference ref st resp rows)"
  shows "r' \<in> set rows \<or> status r' = st"
proof -
  from assms have "r' \<in> (\<lambda>r. if reference r = ref
      then r\<lparr>status := st, paystack_response := resp\<rparr> else r) ` set rows"
    by (simp only: updateByReference_def set_map)
  then obtain r where "r \<in> set rows"
    and r': "r' = (if reference r = ref then r\<lparr>status := st, paystack_response := resp\<rparr> else r)"
    by blast
  then show ?thesis
    by (cases "reference r = ref") simp_all
qed

lemma updateByReference_snoc:
  "reference row = ref \<Longrightarrow>
     updateByReference ref st resp (rows @ [row])
       = updateByReference ref st resp rows @ [row\<lparr>status := st, paystack_response := resp\<rparr>]"
  by (simp add: updateByReference_def)

lemma handler_no_pending:
  assumes "\<forall>r\<in>set rows. status r \<noteq> ''pending''"
  shows "\<forall>r\<in>set (snd (handler env req gw db rows)). status r \<noteq> ''pending''"
proof
  fix r' assume mem: "r' \<in> set (snd (handler env req gw db rows))"
  from handler_table_cases [of env req gw db rows]
  show "status r' \<noteq> ''pending''"
  proof
    assume "snd (handler env req gw db rows) = rows"
    with mem assms show ?thesis
      by simp
  next
    assume "\<exists>ref json. req = JsonBody (Some ref) \<and> ref \<noteq> [] \<and> gw ref = HttpAnswer True json
        \<and> snd (handler env req gw db rows)
            = updateByReference ref
                (if data_status json = Some ''success'' then ''verified'' else ''failed'')
                (GatewayAnswer json) rows"
    then obtain ref json where "snd (handler env req gw db rows)
            = updateByReference ref
                (if data_status json = Some ''success'' then ''verified'' else ''failed'')
                (GatewayAnswer json) rows"
      by blast
    with mem have "r' \<in> set rows
        \<or> status r' = (if data_status json = Some ''success'' then ''verified'' else ''failed'')"
      by (simp only: updateByReference_mem)
    then show ?thesis
    proof
      assume "r' \<in> set rows"
      with assms show ?thesis by simp
    next
      assume "status r' = (if data_status json = Some ''success'' then ''verified'' else ''failed'')"
      then show ?thesis by simp
    qed
  qed
qed

lemma handlePaymentSuccess_table:
  "payment_transactions (handlePaymentSuccess b c payload m) =
     (case sessionUserId m of
        None \<Rightarrow> payment_transactions m
      | Some uid \<Rightarrow>
          if uid = [] then payment_transactions m
          else snd (handler (functionEnv b) (JsonBody (Some (config_reference c)))
                 (gateway b) (updateResult b)
                 (insertRow (insertResult b)
                    \<lparr> user_id = uid, amount = config_amount c, purpose = ''reattempt'',
                      reference = config_reference c, status = ''success'',
                      paystack_response = CallbackPayload payload \<rparr>
                    (payment_transactions m))))"
  by (simp add: handlePaymentSuccess_def Let_def)

lemma handlePaymentSuccess_frame:
  "sessionUserId (handlePaymentSuccess b c payload m) = sessionUserId m
   \<and> userEmail (handlePaymentSuccess b c payload m) = userEmail m
   \<and> config (handlePaymentSuccess b c payload m) = config m
   \<and> checkout (handlePaymentSuccess b c payload m) = checkout m"
  by (simp add: handlePaymentSuccess_def Let_def)

lemma handlePaymentSuccess_no_pending:
  assumes "\<forall>r\<in>set (payment_transactions m). status r \<noteq> ''pending''"
  shows "\<forall>r\<in>set (payment_transactions (handlePaymentSuccess b c payload m)).
           status r \<noteq> ''pending''"
proof (cases "sessionUserId m")
  case None
  with assms show ?thesis
    by (simp add: handlePaymentSuccess_table)
next
  case (Some uid)
  show ?thesis
  proof (cases "uid = []")
    case True
    with Some assms show ?thesis
      by (simp add: handlePaymentSuccess_table)
  next
    case False
    let ?row = "\<lparr> user_id = uid, amount = config_amount c, purpose = ''reattempt'',
                      reference = config_reference c, status = ''success'',
                      paystack_response = CallbackPayload payload \<rparr>"
    have "\<forall>r\<in>set (insertRow (insertResult b) ?row (payment_transactions m)).
            status r \<noteq> ''pending''"
      using insertRow_cases [of "insertResult b" ?row "payment_transactions m"] assms
      by auto
    then have "\<forall>r\<in>set (snd (handler (functionEnv b) (JsonBody (Some (config_reference c)))
                 (gateway b) (updateResult b)
                 (insertRow (insertResult b) ?row (payment_transactions m)))).
            status r \<noteq> ''pending''"
      by (rule handler_no_pending)
    with Some False show ?thesis
      by (simp only: handlePaymentSuccess_table option.case if_False)
  qed
qed

lemma modalStep_quiet:
  "payment_transactions (modalStep b k (Render now) m) = payment_transactions m"
  "payment_transactions (modalStep b k ClickPay m) = payment_transactions m"
  "payment_transactions (modalStep b k GatewayClose m) = payment_transactions m"
  by (simp_all add: handlePaymentClose_def split: option.split)

lemma modalStep_success_closed:
  "checkout m = None \<Longrightarrow> modalStep b k (GatewaySuccess payload) m = m"
  by simp

lemma modalStep_success_open:
  "checkout m = Some c \<Longrightarrow>
     payment_transactions (modalStep b k (GatewaySuccess payload) m)
       = payment_transactions (handlePaymentSuccess b c payload m)"
  by simp

lemma modalStep_no_pending:
  assumes "\<forall>r\<in>set (payment_transactions m). status r \<noteq> ''pending''"
  shows "\<forall>r\<in>set (payment_transactions (modalStep b k e m)). status r \<noteq> ''pending''"
proof (cases e)
  case (Render now)
  with assms show ?thesis by (simp only: modalStep_quiet)
next
  case ClickPay
  with assms show ?thesis by (simp only: modalStep_quiet)
next
  case (GatewaySuccess payload)
  show ?thesis
  proof (cases "checkout m")
    case None
    with assms GatewaySuccess show ?thesis
      by (simp only: modalStep_success_closed)
  next
    case (Some c)
    with handlePaymentSuccess_no_pending [OF assms, of b c payload] GatewaySuccess show ?thesis
      by (simp only: modalStep_success_open)
  qed
next
  case GatewayClose
  with assms show ?thesis by (simp only: modalStep_quiet)
qed

lemma modalRun_no_pending:
  "\<forall>r\<in>set (payment_transactions m). status r \<noteq> ''pending''
     \<Longrightarrow> \<forall>r\<in>set (payment_transactions (modalRun b k es m)). status r \<noteq> ''pending''"
proof (induction es arbitrary: m)
  case Nil
  then show ?case by simp
next
  case (Cons e es)
  from Cons.prems have "\<forall>r\<in>set (payment_transactions (modalStep b k e m)). status r \<noteq> ''pending''"
    by (rule modalStep_no_pending)
  then show ?case
    by (simp add: Cons.IH)
qed

lemma modalRun_quiet:
  "\<forall>e\<in>set es. \<forall>p. e \<noteq> GatewaySuccess p
     \<Longrightarrow> payment_transactions (modalRun b k es m) = payment_transactions m"
proof (induction es arbitrary: m)
  case Nil
  then show ?case by simp
next
  case (Cons e es)
  from Cons.prems have "payment_transactions (modalStep b k e m) = payment_transactions m"
    by (cases e) (simp_all only: modalStep_quiet list.set_intros, auto)
  moreover from Cons.prems have "\<forall>e\<in>set es. \<forall>p. e \<noteq> GatewaySuccess p"
    by simp
  ultimately show ?case
    by (simp add: Cons.IH)
qed

lemma modalRun_append:
  "modalRun b k (xs @ ys) m = modalRun b k ys (modalRun b k xs m)"
  by (induction xs arbitrary: m) simp_all

lemma modalRun_renders:
  "checkout (modalRun b k (map Render later) m) = checkout m
   \<and> sessionUserId (modalRun b k (map Render later) m) = sessionUserId m
   \<and> payment_transactions (modalRun b k (map Render later) m) = payment_transactions m"
  by (induction later arbitrary: m) simp_all

lemma modalRun_click:
  assumes "canPay (paystackConfigAt now (userEmail m) k)"
  shows "checkout (modalRun b k [Render now, ClickPay] m) = Some (paystackConfigAt now (userEmail m) k)
    \<and> sessionUserId (modalRun b k [Render now, ClickPay] m) = sessionUserId m
    \<and> payment_transactions (modalRun b k [Render now, ClickPay] m) = payment_transactions m"
  using assms by simp

lemma modalStep_success_table:
  assumes "checkout m = Some c" and "sessionUserId m = Some u" and "u \<noteq> []"
  shows "payment_transactions (modalStep b k (GatewaySuccess payload) m)
         = snd (handler (functionEnv b) (JsonBody (Some (config_reference c))) (gateway b)
                  (updateResult b)
                  (insertRow (insertResult b)
                     \<lparr> user_id = u, amount = config_amount c, purpose = ''reattempt'',
                       reference = config_reference c, status = ''success'',
                       paystack_response = CallbackPayload payload \<rparr>
                     (payment_transactions m)))"
  using assms by (simp only: modalStep_success_open handlePaymentSuccess_table option.case if_False)

lemma modalStep_success_no_user:
  assumes "sessionUserId m = None \<or> sessionUserId m = Some []"
  shows "payment_transactions (modalStep b k (GatewaySuccess payload) m) = payment_transactions m"
proof (cases "checkout m")
  case None
  then show ?thesis
    by (simp only: modalStep_success_closed)
next
  case (Some c)
  from assms show ?thesis
  proof
    assume "sessionUserId m = None"
    with Some show ?thesis
      by (simp only: modalStep_success_open handlePaymentSuccess_table option.case)
  next
    assume "sessionUserId m = Some []"
    with Some show ?thesis
      by (simp only: modalStep_success_open handlePaymentSuccess_table option.case simp_thms if_True)
  qed
qed

lemma modalRun_success:
  assumes "canPay (paystackConfigAt now (userEmail m) k)"
    and "sessionUserId m = Some u" and "u \<noteq> []"
  shows "payment_transactions
           (modalRun b k ([Render now, ClickPay] @ map Render later @ [GatewaySuccess payload]) m)
         = snd (handler (functionEnv b) (JsonBody (Some (toString now))) (gateway b)
                  (updateResult b)
                  (insertRow (insertResult b)
                     \<lparr> user_id = u, amount = 250000, purpose = ''reattempt'',
                       reference = toString now, status = ''success'',
                       paystack_response = CallbackPayload payload \<rparr>
                     (payment_transactions m)))"
proof -
  let ?c = "paystackConfigAt now (userEmail m) k"
  let ?m1 = "modalRun b k [Render now, ClickPay] m"
  let ?m2 = "modalRun b k (map Render later) ?m1"
  note click = modalRun_click [OF assms(1), of b]
  note renders = modalRun_renders [of b k later ?m1]
  have open2: "checkout ?m2 = Some ?c"
    using click renders by simp
  have user2: "sessionUserId ?m2 = Some u"
    using click renders assms(2) by simp
  have table2: "payment_transactions ?m2 = payment_transactions m"
    using click renders by simp
  have "modalRun b k ([Render now, ClickPay] @ map Render later @ [GatewaySuccess payload]) m
      = modalStep b k (GatewaySuccess payload) ?m2"
    by (simp only: modalRun_append modalRun.simps)
  then have "payment_transactions
      (modalRun b k ([Render now, ClickPay] @ map Render later @ [GatewaySuccess payload]) m)
      = snd (handler (functionEnv b) (JsonBody (Some (config_reference ?c))) (gateway b)
                  (updateResult b)
                  (insertRow (insertResult b)
                     \<lparr> user_id = u, amount = config_amount ?c, purpose = ''reattempt'',
                       reference = config_reference ?c, status = ''success'',
                       paystack_response = CallbackPayload payload \<rparr>
                     (payment_transactions ?m2)))"
    by (simp only: modalStep_success_table [OF open2 user2 assms(3)])
  moreover have "config_reference ?c = toString now" and "config_amount ?c = 250000"
    by (simp_all add: paystackConfigAt_def)
  ultimately show ?thesis
    by (simp only: table2)
qed

lemma modalRun_opened:
  assumes "canPay (paystackConfigAt now (userEmail m) k)"
  shows "gatewayOpen (modalRun b k ([Render now, ClickPay] @ map Render later) m)
    \<and> payment_transactions (modalRun b k ([Render now, ClickPay] @ map Render later) m)
        = payment_transactions m"
proof -
  let ?m1 = "modalRun b k [Render now, ClickPay] m"
  note click = modalRun_click [OF assms, of b]
  note renders = modalRun_renders [of b k later ?m1]
  have "modalRun b k ([Render now, ClickPay] @ map Render later) m
      = modalRun b k (map Render later) ?m1"
    by (simp only: modalRun_append)
  with click renders show ?thesis
    by (simp add: gatewayOpen_def)
qed

lemma handler_keeps_logged_row:
  assumes "reference row = ref"
  shows "\<exists>r\<in>set (snd (handler env (JsonBody (Some ref)) gw db (rows @ [row]))).
           reference r = ref \<and> user_id r = user_id row \<and> amount r = amount row
           \<and> purpose r = purpose row
           \<and> (status r = status row \<or> status r = ''verified'' \<or> status r = ''failed'')"
proof -
  from handler_table_cases [of env "JsonBody (Some ref)" gw db "rows @ [row]"]
  show ?thesis
  proof
    assume "snd (handler env (JsonBody (Some ref)) gw db (rows @ [row])) = rows @ [row]"
    with assms show ?thesis
      by simp
  next
    assume "\<exists>ref' json. JsonBody (Some ref) = JsonBody (Some ref') \<and> ref' \<noteq> []
        \<and> gw ref' = HttpAnswer True json
        \<and> snd (handler env (JsonBody (Some ref)) gw db (rows @ [row]))
            = updateByReference ref'
                (if data_status json = Some ''success'' then ''verified'' else ''failed'')
                (GatewayAnswer json) (rows @ [row])"
    then obtain json where "snd (handler env (JsonBody (Some ref)) gw db (rows @ [row]))
            = updateByReference ref
                (if data_status json = Some ''success'' then ''verified'' else ''failed'')
                (GatewayAnswer json) (rows @ [row])"
      by auto
    then have "row\<lparr>status := (if data_status json = Some ''success'' then ''verified'' else ''failed''),
                    paystack_response := GatewayAnswer json\<rparr>
        \<in> set (snd (handler env (JsonBody (Some ref)) gw db (rows @ [row])))"
      using assms by (simp add: updateByReference_snoc)
    then show ?thesis
      using assms by (rule_tac x = "row\<lparr>status := (if data_status json = Some ''success''
          then ''verified'' else ''failed''), paystack_response := GatewayAnswer json\<rparr>" in bexI)
        simp_all
  qed
qed

lemma modalStep_success_row:
  assumes "checkout m = Some c" and "sessionUserId m = Some u" and "u \<noteq> []"
    and "insertResult b = DbOk"
  shows "\<exists>r\<in>set (payment_transactions (modalStep b k (GatewaySuccess payload) m)).
           reference r = config_reference c \<and> user_id r = u \<and> amount r = config_amount c
           \<and> purpose r = ''reattempt''
           \<and> (status r = ''success'' \<or> status r = ''verified'' \<or> status r = ''failed'')"
proof -
  let ?row = "\<lparr> user_id = u, amount = config_amount c, purpose = ''reattempt'',
                 reference = config_reference c, status = ''success'',
                 paystack_response = CallbackPayload payload \<rparr>"
  have "reference ?row = config_reference c"
    by simp
  from handler_keeps_logged_row [OF this, of "functionEnv b" "gateway b" "updateResult b"
      "payment_transactions m"]
  have "\<exists>r\<in>set (snd (handler (functionEnv b) (JsonBody (Some (config_reference c))) (gateway b)
                        (updateResult b) (payment_transactions m @ [?row]))).
           reference r = config_reference c \<and> user_id r = u \<and> amount r = config_amount c
           \<and> purpose r = ''reattempt''
           \<and> (status r = ''success'' \<or> status r = ''verified'' \<or> status r = ''failed'')"
    by simp
  then show ?thesis
    by (simp only: modalStep_success_table [OF assms(1-3)] assms(4) insertRow_def dbResult.case)
qed

lemma reference_eq_iff:
  "(config_reference (paystackConfigAt now email k)
      = config_reference (paystackConfigAt now' email' k')) = (now = now')"
  using toString_inject [of now now'] by (auto simp: paystackConfigAt_def)

text \<open>
  Claim C1, as the code has it. In every state of the modal, rendering, pressing the pay
  button and closing the checkout leave the table as it is, and so does every run of
  events without a success callback, a success callback with no checkout open and one
  without a user id in the session: nothing is written before the gateway reports
  success. The success callback of an open checkout, with a user id in the session,
  leaves the result of \<open>verify-payment\<close> on the table with a new row appended; the
  row carries the reference and the amount of the configuration the checkout was opened
  with and the status \<open>success\<close>, and when the insert is accepted the table then has a
  row of that reference whose status is \<open>success\<close>, \<open>verified\<close> or \<open>failed\<close>. From any
  state, a render at a clock time, the press of the pay button, any further renders and
  the success callback write the reference of the render in which the button was
  pressed, the decimal text of its clock time, with the amount 250000. No run brings a
  row of status \<open>pending\<close> into a table that had none. Two renders have the same
  reference exactly when their clock times are equal.
\<close>

theorem modal_persists_on_success:
  "payment_transactions (modalStep b k (Render now) m) = payment_transactions m
   \<and> payment_transactions (modalStep b k ClickPay m) = payment_transactions m
   \<and> payment_transactions (modalStep b k GatewayClose m) = payment_transactions m
   \<and> (checkout mc = None \<longrightarrow>
        payment_transactions (modalStep b k (GatewaySuccess payload) mc) = payment_transactions mc)
   \<and> (sessionUserId mn = None \<or> sessionUserId mn = Some [] \<longrightarrow>
        payment_transactions (modalStep b k (GatewaySuccess payload) mn) = payment_transactions mn)
   \<and> ((\<forall>e\<in>set es. \<forall>p. e \<noteq> GatewaySuccess p) \<longrightarrow>
        payment_transactions (modalRun b k es m) = payment_transactions m)
   \<and> (checkout mo = Some c \<and> sessionUserId mo = Some u \<and> u \<noteq> [] \<longrightarrow>
        payment_transactions (modalStep b k (GatewaySuccess payload) mo)
          = snd (handler (functionEnv b) (JsonBody (Some (config_reference c))) (gateway b)
                   (updateResult b)
                   (insertRow (insertResult b)
                      \<lparr> user_id = u, amount = config_amount c, purpose = ''reattempt'',
                        reference = config_reference c, status = ''success'',
                        paystack_response = CallbackPayload payload \<rparr>
                      (payment_transactions mo))))
   \<and> (checkout mo = Some c \<and> sessionUserId mo = Some u \<and> u \<noteq> [] \<and> insertResult b = DbOk \<longrightarrow>
        (\<exists>r\<in>set (payment_transactions (modalStep b k (GatewaySuccess payload) mo)).
           reference r = config_reference c \<and> user_id r = u \<and> amount r = config_amount c
           \<and> purpose r = ''reattempt''
           \<and> (status r = ''success'' \<or> status r = ''verified'' \<or> status r = ''failed'')))
   \<and> (canPay (paystackConfigAt now (userEmail m) k) \<longrightarrow>
        gatewayOpen (modalRun b k ([Render now, ClickPay] @ map Render later) m)
        \<and> payment_transactions (modalRun b k ([Render now, ClickPay] @ map Render later) m)
            = payment_transactions m)
   \<and> (canPay (paystackConfigAt now (userEmail m) k) \<and> sessionUserId m = Some u \<and> u \<noteq> [] \<longrightarrow>
        payment_transactions
          (modalRun b k ([Render now, ClickPay] @ map Render later @ [GatewaySuccess payload]) m)
          = snd (handler (functionEnv b) (JsonBody (Some (toString now))) (gateway b)
                   (updateResult b)
                   (insertRow (insertResult b)
                      \<lparr> user_id = u, amount = 250000, purpose = ''reattempt'',
                        reference = toString now, status = ''success'',
                        paystack_response = CallbackPayload payload \<rparr>
                      (payment_transactions m))))
   \<and> ((\<forall>r\<in>set (payment_transactions m). status r \<noteq> ''pending'') \<longrightarrow>
        (\<forall>r\<in>set (payment_transactions (modalRun b k es m)). status r \<noteq> ''pending''))
   \<and> ((config_reference (paystackConfigAt now email k)
          = config_reference (paystackConfigAt now' email' k')) = (now = now'))"
proof (intro conjI impI)
  show "payment_transactions (modalStep b k (Render now) m) = payment_transactions m"
    and "payment_transactions (modalStep b k ClickPay m) = payment_transactions m"
    and "payment_transactions (modalStep b k GatewayClose m) = payment_transactions m"
    by (rule modalStep_quiet)+
next
  assume "checkout mc = None"
  then show "payment_transactions (modalStep b k (GatewaySuccess payload) mc)
      = payment_transactions mc"
    by (simp only: modalStep_success_closed)
next
  assume "sessionUserId mn = None \<or> sessionUserId mn = Some []"
  then show "payment_transactions (modalStep b k (GatewaySuccess payload) mn)
      = payment_transactions mn"
    by (rule modalStep_success_no_user)
next
  assume "\<forall>e\<in>set es. \<forall>p. e \<noteq> GatewaySuccess p"
  then show "payment_transactions (modalRun b k es m) = payment_transactions m"
    by (rule modalRun_quiet)
next
  assume "checkout mo = Some c \<and> sessionUserId mo = Some u \<and> u \<noteq> []"
  then have "checkout mo = Some c" and "sessionUserId mo = Some u" and "u \<noteq> []"
    by simp_all
  then show "payment_transactions (modalStep b k (GatewaySuccess payload) mo)
          = snd (handler (functionEnv b) (JsonBody (Some (config_reference c))) (gateway b)
                   (updateResult b)
                   (insertRow (insertResult b)
                      \<lparr> user_id = u, amount = config_amount c, purpose = ''reattempt'',
                        reference = config_reference c, status = ''success'',
                        paystack_response = CallbackPayload payload \<rparr>
                      (payment_transactions mo)))"
    by (rule modalStep_success_table)
next
  assume "checkout mo = Some c \<and> sessionUserId mo = Some u \<and> u \<noteq> [] \<and> insertResult b = DbOk"
  then have "checkout mo = Some c" and "sessionUserId mo = Some u" and "u \<noteq> []"
    and "insertResult b = DbOk"
    by simp_all
  then show "\<exists>r\<in>set (payment_transactions (modalStep b k (GatewaySuccess payload) mo)).
           reference r = config_reference c \<and> user_id r = u \<and> amount r = config_amount c
           \<and> purpose r = ''reattempt''
           \<and> (status r = ''success'' \<or> status r = ''verified'' \<or> status r = ''failed'')"
    by (rule modalStep_success_row)
next
  assume c: "canPay (paystackConfigAt now (userEmail m) k)"
  from modalRun_opened [OF c, of b later]
  show "gatewayOpen (modalRun b k ([Render now, ClickPay] @ map Render later) m)"
    and "payment_transactions (modalRun b k ([Render now, ClickPay] @ map Render later) m)
            = payment_transactions m"
    by simp_all
next
  assume "canPay (paystackConfigAt now (userEmail m) k) \<and> sessionUserId m = Some u \<and> u \<noteq> []"
  then have "canPay (paystackConfigAt now (userEmail m) k)" and "sessionUserId m = Some u"
    and "u \<noteq> []"
    by simp_all
  then show "payment_transactions
          (modalRun b k ([Render now, ClickPay] @ map Render later @ [GatewaySuccess payload]) m)
          = snd (handler (functionEnv b) (JsonBody (Some (toString now))) (gateway b)
                   (updateResult b)
                   (insertRow (insertResult b)
                      \<lparr> user_id = u, amount = 250000, purpose = ''reattempt'',
                        reference = toString now, status = ''success'',
                        paystack_response = CallbackPayload payload \<rparr>
                      (payment_transactions m)))"
    by (rule modalRun_success)
next
  assume "\<forall>r\<in>set (payment_transactions m). status r \<noteq> ''pending''"
  then show "\<forall>r\<in>set (payment_transactions (modalRun b k es m)). status r \<noteq> ''pending''"
    by (rule modalRun_no_pending)
next
  show "(config_reference (paystackConfigAt now email k)
          = config_reference (paystackConfigAt now' email' k')) = (now = now')"
    by (rule reference_eq_iff)
qed

lemma updateByReference_user_ids:
  "map user_id (updateByReference ref st resp rows) = map user_id rows"
  unfolding updateByReference_def by (induction rows) simp_all

lemma example_run:
  assumes "canPay (paystackConfigAt now email k)" and "u \<noteq> []"
  shows "payment_transactions
           (modalRun (exampleBackend (reporting ''success'')) k
              [Render now, ClickPay, GatewaySuccess payload] (mounted (Some u) email rows))
         = updateByReference (toString now) ''verified'' (GatewayAnswer (reporting ''success''))
             (rows @ [\<lparr> user_id = u, amount = 250000, purpose = ''reattempt'',
                        reference = toString now, status = ''success'',
                        paystack_response = CallbackPayload payload \<rparr>])"
proof -
  let ?b = "exampleBackend (reporting ''success'')"
  let ?m = "mounted (Some u) email rows"
  let ?row = "\<lparr> user_id = u, amount = 250000, purpose = ''reattempt'',
                 reference = toString now, status = ''success'',
                 paystack_response = CallbackPayload payload \<rparr>"
  have fields: "userEmail ?m = email" "sessionUserId ?m = Some u" "payment_transactions ?m = rows"
    by (simp_all add: mounted_def)
  have pay: "canPay (paystackConfigAt now (userEmail ?m) k)"
    using assms(1) by (simp only: fields)
  have list: "[Render now, ClickPay] @ map Render [] @ [GatewaySuccess payload]
      = [Render now, ClickPay, GatewaySuccess payload]"
    by simp
  have ans: "answering (reporting ''success'') (toString now) = HttpAnswer True (reporting ''success'')"
    by (simp add: answering_def)
  have "payment_transactions (modalRun ?b k [Render now, ClickPay, GatewaySuccess payload] ?m)
      = snd (handler (functionEnv ?b) (JsonBody (Some (toString now))) (gateway ?b)
               (updateResult ?b) (insertRow (insertResult ?b) ?row (payment_transactions ?m)))"
    using modalRun_success [OF pay fields(2) assms(2), of ?b "[]" payload]
    by (simp only: list)
  also have "\<dots> = snd (handler exampleEnv (JsonBody (Some (toString now)))
               (answering (reporting ''success'')) DbOk (rows @ [?row]))"
    by (simp add: exampleBackend_def insertRow_def fields)
  also have "\<dots> = updateByReference (toString now)
      (if data_status (reporting ''success'') = Some ''success'' then ''verified'' else ''failed'')
      (GatewayAnswer (reporting ''success'')) (rows @ [?row])"
    by (simp only: handler_updates [of exampleEnv "toString now"
          "answering (reporting ''success'')" "reporting ''success''",
          OF exampleEnv_configured toString_nonempty ans] snd_conv)
  also have "(if data_status (reporting ''success'') = Some ''success''
      then ''verified'' else ''failed'') = ''verified''"
    by (simp add: reporting_def)
  finally show ?thesis .
qed

text \<open>
  The claim as written fails: with the checkout open the table is still empty; the row
  the success callback leaves is \<open>verified\<close>, never \<open>pending\<close>; and two users whose
  modals render at the same clock time leave two rows with the same reference.
\<close>

theorem modal_persists_on_success_counterexample:
  "gatewayOpen
     (modalRun (exampleBackend (reporting ''success'')) (Some ''pk_test_1'')
        [Render 1700000000000, ClickPay] (mounted (Some ''user-1'') ''a@b.c'' []))
   \<and> payment_transactions
       (modalRun (exampleBackend (reporting ''success'')) (Some ''pk_test_1'')
          [Render 1700000000000, ClickPay] (mounted (Some ''user-1'') ''a@b.c'' [])) = []
   \<and> map status
       (payment_transactions
          (modalRun (exampleBackend (reporting ''success'')) (Some ''pk_test_1'')
             [Render 1700000000000, ClickPay, GatewaySuccess ''{}'']
             (mounted (Some ''user-1'') ''a@b.c'' []))) = [''verified'']
   \<and> map reference
       (payment_transactions
          (modalRun (exampleBackend (reporting ''success'')) (Some ''pk_test_1'')
             [Render 1700000000000, ClickPay, GatewaySuccess ''{}'']
             (mounted (Some ''user-2'') ''c@d.e''
                (payment_transactions
                   (modalRun (exampleBackend (reporting ''success'')) (Some ''pk_test_1'')
                      [Render 1700000000000, ClickPay, GatewaySuccess ''{}'']
                      (mounted (Some ''user-1'') ''a@b.c'' []))))))
     = [''1700000000000'', ''1700000000000'']
   \<and> map user_id
       (payment_transactions
          (modalRun (exampleBackend (reporting ''success'')) (Some ''pk_test_1'')
             [Render 1700000000000, ClickPay, GatewaySuccess ''{}'']
             (mounted (Some ''user-2'') ''c@d.e''
                (payment_transactions
                   (modalRun (exampleBackend (reporting ''success'')) (Some ''pk_test_1'')
                      [Render 1700000000000, ClickPay, GatewaySuccess ''{}'']
                      (mounted (Some ''user-1'') ''a@b.c'' []))))))
     = [''user-1'', ''user-2'']"
proof -
  let ?b = "exampleBackend (reporting ''success'')"
  let ?k = "Some ''pk_test_1''"
  let ?m = "mounted (Some ''user-1'') ''a@b.c'' []"
  have pay1: "canPay (paystackConfigAt 1700000000000 ''a@b.c'' ?k)"
    and pay2: "canPay (paystackConfigAt 1700000000000 ''c@d.e'' ?k)"
    by (simp_all add: canPay_def paystackConfigAt_def orElse_def)
  have user1: "''user-1'' \<noteq> []" and user2: "''user-2'' \<noteq> []"
    by simp_all
  have clock: "toString 1700000000000 = ''1700000000000''"
    by (simp add: toString_small toString_step digitChar_def)
  have pay: "canPay (paystackConfigAt 1700000000000 (userEmail ?m) ?k)"
    using pay1 by (simp add: mounted_def)
  have list: "[Render 1700000000000, ClickPay] @ map Render []
      = [Render 1700000000000, ClickPay]"
    by simp
  from modalRun_opened [OF pay, of ?b "[]"]
  have opened: "gatewayOpen (modalRun ?b ?k [Render 1700000000000, ClickPay] ?m)"
    and empty: "payment_transactions (modalRun ?b ?k [Render 1700000000000, ClickPay] ?m) = []"
    by (simp_all only: list) (simp add: mounted_def)
  note first = example_run [OF pay1 user1, of "''{}''" "[]"]
  have verified: "map status (payment_transactions
      (modalRun ?b ?k [Render 1700000000000, ClickPay, GatewaySuccess ''{}''] ?m)) = [''verified'']"
    by (simp only: first updateByReference_statuses) simp
  let ?t1 = "payment_transactions
      (modalRun ?b ?k [Render 1700000000000, ClickPay, GatewaySuccess ''{}''] ?m)"
  let ?t2 = "payment_transactions
      (modalRun ?b ?k [Render 1700000000000, ClickPay, GatewaySuccess ''{}'']
         (mounted (Some ''user-2'') ''c@d.e'' ?t1))"
  let ?row2 = "\<lparr> user_id = ''user-2'', amount = 250000, purpose = ''reattempt'',
                  reference = toString 1700000000000, status = ''success'',
                  paystack_response = CallbackPayload ''{}'' \<rparr>"
  have second: "?t2 = updateByReference (toString 1700000000000) ''verified''
      (GatewayAnswer (reporting ''success'')) (?t1 @ [?row2])"
    by (rule example_run [OF pay2 user2])
  have refs1: "map reference ?t1 = [''1700000000000'']"
    by (simp only: first updateByReference_references) (simp add: clock)
  have users1: "map user_id ?t1 = [''user-1'']"
    by (simp only: first updateByReference_user_ids) simp
  have "map reference ?t2 = map reference ?t1 @ [toString 1700000000000]"
    by (simp only: second updateByReference_references map_append) simp
  then have refs: "map reference ?t2 = [''1700000000000'', ''1700000000000'']"
    by (simp only: refs1 clock) simp
  have "map user_id ?t2 = map user_id ?t1 @ [''user-2'']"
    by (simp only: second updateByReference_user_ids map_append) simp
  then have users: "map user_id ?t2 = [''user-1'', ''user-2'']"
    by (simp only: users1) simp
  from opened empty verified refs users show ?thesis
    by blast
qed

theorem modal_persists_on_success_witness:
  "canPay (paystackConfigAt 1700000000000 ''a@b.c'' (Some ''pk_test_1''))
   \<and> ''user-1'' \<noteq> []
   \<and> insertResult (exampleBackend (reporting ''success'')) = DbOk
   \<and> (1700000000000::nat) \<noteq> 1700000000001
   \<and> \<not> (\<exists>r\<in>set [exampleRow ''ref-0'' ''verified'']. status r = ''pending'')
   \<and> \<not> (\<exists>e\<in>set [Render 1, ClickPay, GatewayClose, Render 2]. \<exists>p. e = GatewaySuccess p)
   \<and> payment_transactions
        (modalRun (exampleBackend (reporting ''success'')) (Some ''pk_test_1'')
           [Render 1, ClickPay, GatewayClose, Render 2]
           (mounted (Some ''user-1'') ''a@b.c'' [exampleRow ''ref-0'' ''verified'']))
      = [exampleRow ''ref-0'' ''verified'']
   \<and> payment_transactions
        (modalStep (exampleBackend (reporting ''success'')) (Some ''pk_test_1'')
           (GatewaySuccess ''{}'')
           (mounted (Some ''user-1'') ''a@b.c'' [exampleRow ''ref-0'' ''verified'']))
      = [exampleRow ''ref-0'' ''verified'']
   \<and> payment_transactions
        (modalStep (exampleBackend (reporting ''success'')) (Some ''pk_test_1'')
           (GatewaySuccess ''{}'')
           ((mounted None ''a@b.c'' [exampleRow ''ref-0'' ''verified''])
              \<lparr>checkout := Some (paystackConfigAt 1700000000000 ''a@b.c'' (Some ''pk_test_1''))\<rparr>))
      = [exampleRow ''ref-0'' ''verified'']
   \<and> (\<exists>r\<in>set (payment_transactions
                 (modalStep (exampleBackend (reporting ''success'')) (Some ''pk_test_1'')
                    (GatewaySuccess ''{}'')
                    ((mounted (Some ''user-1'') ''a@b.c'' [exampleRow ''ref-0'' ''verified''])
                       \<lparr>checkout :=
                          Some (paystackConfigAt 1700000000000 ''a@b.c'' (Some ''pk_test_1''))\<rparr>))).
          reference r = toString 1700000000000 \<and> user_id r = ''user-1'' \<and> amount r = 250000
          \<and> (status r = ''success'' \<or> status r = ''verified'' \<or> status r = ''failed''))
   \<and> gatewayOpen
        (modalRun (exampleBackend (reporting ''success'')) (Some ''pk_test_1'')
           [Render 1700000000000, ClickPay, Render 1700000000005]
           (mounted (Some ''user-1'') ''a@b.c'' [exampleRow ''ref-0'' ''verified'']))
   \<and> payment_transactions
        (modalRun (exampleBackend (reporting ''success'')) (Some ''pk_test_1'')
           [Render 1700000000000, ClickPay, Render 1700000000005, GatewaySuccess ''{}'']
           (mounted (Some ''user-1'') ''a@b.c'' [exampleRow ''ref-0'' ''verified'']))
      = snd (handler exampleEnv (JsonBody (Some (toString 1700000000000)))
               (answering (reporting ''success'')) DbOk
               ([exampleRow ''ref-0'' ''verified'']
                @ [\<lparr> user_id = ''user-1'', amount = 250000, purpose = ''reattempt'',
                      reference = toString 1700000000000, status = ''success'',
                      paystack_response = CallbackPayload ''{}'' \<rparr>]))
   \<and> \<not> (\<exists>r\<in>set (payment_transactions
                 (modalRun (exampleBackend (reporting ''success'')) (Some ''pk_test_1'')
                    [Render 1700000000000, ClickPay, Render 1700000000005, GatewaySuccess ''{}'']
                    (mounted (Some ''user-1'') ''a@b.c'' [exampleRow ''ref-0'' ''verified'']))).
          status r = ''pending'')
   \<and> config_reference (paystackConfigAt 1700000000000 ''a@b.c'' (Some ''pk_test_1''))
       \<noteq> config_reference (paystackConfigAt 1700000000001 ''c@d.e'' (Some ''pk_test_1''))"
proof -
  let ?b = "exampleBackend (reporting ''success'')"
  let ?k = "Some ''pk_test_1''"
  let ?rows = "[exampleRow ''ref-0'' ''verified'']"
  let ?m = "mounted (Some ''user-1'') ''a@b.c'' ?rows"
  let ?c = "paystackConfigAt 1700000000000 ''a@b.c'' ?k"
  let ?mn = "(mounted None ''a@b.c'' ?rows)\<lparr>checkout := Some ?c\<rparr>"
  let ?mo = "?m\<lparr>checkout := Some ?c\<rparr>"
  let ?quiet = "[Render 1, ClickPay, GatewayClose, Render 2]"
  let ?full = "[Render 1700000000000, ClickPay, Render 1700000000005, GatewaySuccess ''{}'']"
  have pay: "canPay ?c"
    by (simp add: canPay_def paystackConfigAt_def orElse_def)
  have user: "''user-1'' \<noteq> []"
    by simp
  have ins: "insertResult ?b = DbOk"
    by (simp add: exampleBackend_def)
  have clock: "(1700000000000::nat) \<noteq> 1700000000001"
    by simp
  have start: "\<forall>r\<in>set (payment_transactions ?m). status r \<noteq> ''pending''"
    by (simp add: mounted_def exampleRow_def)
  then have start': "\<not> (\<exists>r\<in>set ?rows. status r = ''pending'')"
    by (simp add: mounted_def)
  have quiet: "\<forall>e\<in>set ?quiet. \<forall>p. e \<noteq> GatewaySuccess p"
    by simp
  then have quiet': "\<not> (\<exists>e\<in>set ?quiet. \<exists>p. e = GatewaySuccess p)"
    by blast
  have fields: "payment_transactions ?m = ?rows" "checkout ?m = None" "userEmail ?m = ''a@b.c''"
    "sessionUserId ?m = Some ''user-1''" "sessionUserId ?mn = None \<or> sessionUserId ?mn = Some []"
    "payment_transactions ?mn = ?rows" "checkout ?mo = Some ?c"
    "sessionUserId ?mo = Some ''user-1''" "payment_transactions ?mo = ?rows"
    by (simp_all add: mounted_def)
  have pay': "canPay (paystackConfigAt 1700000000000 (userEmail ?m) ?k)"
    using pay by (simp only: fields)
  have shape: "[Render 1700000000000, ClickPay] @ map Render [1700000000005]
        = [Render 1700000000000, ClickPay, Render 1700000000005]"
    "[Render 1700000000000, ClickPay] @ map Render [1700000000005] @ [GatewaySuccess ''{}'']
        = ?full"
    by simp_all
  have cfg: "config_reference ?c = toString 1700000000000" "config_amount ?c = 250000"
    by (simp_all add: paystackConfigAt_def)
  note t = modal_persists_on_success [where b = ?b and k = ?k and now = 1700000000000
      and m = ?m and mc = ?m and mn = ?mn and mo = ?mo and c = ?c and u = "''user-1''"
      and payload = "''{}''" and es = ?quiet and later = "[1700000000005]"
      and now' = 1700000000001 and email = "''a@b.c''" and email' = "''c@d.e''" and k' = ?k]
  note t' = modal_persists_on_success [where b = ?b and k = ?k and m = ?m and es = ?full]
  from t quiet have c6: "payment_transactions (modalRun ?b ?k ?quiet ?m) = ?rows"
    by (simp only: fields)
  from t fields(2) have c4: "payment_transactions (modalStep ?b ?k (GatewaySuccess ''{}'') ?m) = ?rows"
    by (simp only: fields)
  from t fields(5) have c5: "payment_transactions (modalStep ?b ?k (GatewaySuccess ''{}'') ?mn) = ?rows"
    by (simp only: fields(6))
  from t fields(7,8) user ins
  have "\<exists>r\<in>set (payment_transactions (modalStep ?b ?k (GatewaySuccess ''{}'') ?mo)).
      reference r = config_reference ?c \<and> user_id r = ''user-1'' \<and> amount r = config_amount ?c
      \<and> purpose r = ''reattempt''
      \<and> (status r = ''success'' \<or> status r = ''verified'' \<or> status r = ''failed'')"
    by blast
  then have c8: "\<exists>r\<in>set (payment_transactions (modalStep ?b ?k (GatewaySuccess ''{}'') ?mo)).
      reference r = toString 1700000000000 \<and> user_id r = ''user-1'' \<and> amount r = 250000
      \<and> (status r = ''success'' \<or> status r = ''verified'' \<or> status r = ''failed'')"
    unfolding cfg by blast
  from t pay' have c9: "gatewayOpen (modalRun ?b ?k
      ([Render 1700000000000, ClickPay] @ map Render [1700000000005]) ?m)"
    by blast
  from t pay' fields(4) user
  have "payment_transactions (modalRun ?b ?k
        ([Render 1700000000000, ClickPay] @ map Render [1700000000005] @ [GatewaySuccess ''{}'']) ?m)
      = snd (handler (functionEnv ?b) (JsonBody (Some (toString 1700000000000))) (gateway ?b)
               (updateResult ?b)
               (insertRow (insertResult ?b)
                  \<lparr> user_id = ''user-1'', amount = 250000, purpose = ''reattempt'',
                    reference = toString 1700000000000, status = ''success'',
                    paystack_response = CallbackPayload ''{}'' \<rparr>
                  (payment_transactions ?m)))"
    by blast
  then have c10: "payment_transactions (modalRun ?b ?k ?full ?m)
      = snd (handler exampleEnv (JsonBody (Some (toString 1700000000000)))
               (answering (reporting ''success'')) DbOk
               (?rows @ [\<lparr> user_id = ''user-1'', amount = 250000, purpose = ''reattempt'',
                      reference = toString 1700000000000, status = ''success'',
                      paystack_response = CallbackPayload ''{}'' \<rparr>]))"
    unfolding shape by (simp add: exampleBackend_def insertRow_def fields(1))
  from t' start
  have "\<forall>r\<in>set (payment_transactions (modalRun ?b ?k ?full ?m)). status r \<noteq> ''pending''"
    by blast
  then have c11: "\<not> (\<exists>r\<in>set (payment_transactions (modalRun ?b ?k ?full ?m)).
      status r = ''pending'')"
    by blast
  from t clock
  have c12: "config_reference ?c
       \<noteq> config_reference (paystackConfigAt 1700000000001 ''c@d.e'' ?k)"
    by blast
  from pay user ins clock start' quiet' c6 c4 c5 c8 c9 [unfolded shape] c10 c11 c12
  show ?thesis
    by blast
qed

section \<open>The test date on the certificate\<close>

lemma toLocaleDateString_example: "toLocaleDateString (LocalDate 2024 Mar 5) = ''Mar 05, 2024''"
  by (simp add: twoDigit_def toString_small toString_step digitChar_def)

lemma splitOn_month_first: "splitOn CHR '' '' ''Mar 05, 2024'' = [''Mar'', ''05,'', ''2024'']"
  by simp

lemma splitOn_day_first: "splitOn CHR '' '' ''05 Mar 2024'' = [''05'', ''Mar'', ''2024'']"
  by simp

lemma parseInt_Mar: "parseInt ''Mar'' = None"
  by (simp add: parseInt_def isSpace_def isDigit_def Let_def)

lemma parseInt_05: "parseInt ''05'' = Some 5"
  by (simp add: parseInt_def isSpace_def isDigit_def Let_def digitVal_def)

lemma formatAwardDate_month_first:
  "formatAwardDate y m d ''Mar 05, 2024'' = ''NaNth day of 05,, 2024''"
  by (simp add: formatAwardDate_def Let_def splitOn_month_first parseInt_Mar partAt_def
      orElse_def numberText_def monthFullName_def)

lemma formatAwardDate_day_first:
  "formatAwardDate y m d ''05 Mar 2024'' = ''5th day of March, 2024''"
  by (simp add: formatAwardDate_def Let_def splitOn_day_first parseInt_05 partAt_def
      orElse_def numberText_def monthFullName_def rem10_def toString_small digitChar_def)

text \<open>
  Claim C9. The claim asks for the test date as day, abbreviated month, year
  (\<open>05 Mar 2024\<close>). For an attempt taken on 5 March 2024 the builder stores
  \<open>Mar 05, 2024\<close>: the month comes first and a comma follows the day. The page's own
  \<open>formatAwardDate\<close> reads the stored text day first: on the stored text it prints
  \<open>NaNth day of 05,, 2024\<close>, and on the text the claim describes it prints
  \<open>5th day of March, 2024\<close>.
\<close>

theorem testDate_month_first:
  "(\<exists>c. fetchCertificateData (Some uid) routeId
          (QueryData (a\<lparr>test_date := LocalDate 2024 Mar 5\<rparr>)) full_name cachedName cert = Some c
        \<and> testDate c = ''Mar 05, 2024''
        \<and> testDate c \<noteq> ''05 Mar 2024''
        \<and> formatAwardDate y m d (testDate c) = ''NaNth day of 05,, 2024'')
   \<and> formatAwardDate y m d ''05 Mar 2024'' = ''5th day of March, 2024''"
proof -
  have "\<exists>c. fetchCertificateData (Some uid) routeId
          (QueryData (a\<lparr>test_date := LocalDate 2024 Mar 5\<rparr>)) full_name cachedName cert = Some c
        \<and> testDate c = toLocaleDateString (LocalDate 2024 Mar 5)"
    by (simp add: fetchCertificateData_def Let_def del: toLocaleDateString.simps)
  then obtain c where c: "fetchCertificateData (Some uid) routeId
          (QueryData (a\<lparr>test_date := LocalDate 2024 Mar 5\<rparr>)) full_name cachedName cert = Some c"
    and "testDate c = toLocaleDateString (LocalDate 2024 Mar 5)"
    by blast
  then have stored: "testDate c = ''Mar 05, 2024''"
    by (simp only: toLocaleDateString_example)
  then have "testDate c \<noteq> ''05 Mar 2024''"
    by simp
  moreover from stored have "formatAwardDate y m d (testDate c) = ''NaNth day of 05,, 2024''"
    by (simp only: formatAwardDate_month_first)
  ultimately show ?thesis
    using c stored formatAwardDate_day_first by blast
qed

end
